theory Spec2Isabelle
  imports Complex_Main "HOL-Library.Log_Nat"
begin

section \<open>Common Go notions\<close>

text \<open>
  The Go sources pass entities by pointer and mutate them in place; the embedding passes
  entity values and returns the mutated value.  \<^verbatim>\<open>time.Now()\<close> and \<^verbatim>\<open>uuid.New()\<close>
  read the environment: the instant read by an operation is the parameter \<open>now\<close>, and the
  identifiers drawn from the generator are the parameter \<open>uuid\<close> (the \<open>k\<close>-th identifier
  drawn by one operation is \<open>uuid k\<close>).
\<close>

type_synonym Time = nat

section \<open>float64\<close>

text \<open>
  Prices and amounts are \<^verbatim>\<open>float64\<close>, IEEE 754 binary64.  A value is a finite number, an
  infinity or NaN.  \<open>Finite q\<close> stands for a \<^verbatim>\<open>float64\<close> when \<open>q\<close> is one of the
  representable numbers; every operation below returns such values, since it rounds.
  The two zeros are one value here: the sources only add, multiply, convert from \<^verbatim>\<open>int\<close>
  and compare, and these operations tell the zeros apart at most by the sign of a zero
  result, which no comparison sees.
\<close>

datatype float64 = Finite rat | PInf | NInf | NaN

text \<open>The binary exponent of a positive rational \<open>a\<close>: the \<open>e\<close> with \<open>2^e \<le> a < 2^(e+1)\<close>.\<close>

definition ilog2 :: "rat \<Rightarrow> int" where
  "ilog2 a =
     (case quotient_of a of
        (n, d) \<Rightarrow> let k = bitlen n - bitlen d in if 2 powi k \<le> a then k else k - 1)"

definition round_half_even :: "rat \<Rightarrow> int" where
  "round_half_even x =
     (let f = \<lfloor>x\<rfloor>; d = x - of_int f in
      if d < 1 / 2 then f else if 1 / 2 < d then f + 1 else if even f then f else f + 1)"

text \<open>
  Rounding to nearest, ties to even: 53 significant bits, exponents from \<open>-1022\<close> (below
  it the spacing stays \<open>2^-1074\<close>: subnormal numbers), and a result that reaches \<open>2^1024\<close>
  is an infinity.
\<close>

definition round64 :: "rat \<Rightarrow> float64" where
  "round64 q =
     (if q = 0 then Finite 0
      else
        let a = \<bar>q\<bar>;
            e = max (ilog2 a) (- 1022);
            ulp = 2 powi (e - 52);
            r = of_int (round_half_even (a / ulp)) * ulp
        in if 2 powi 1024 \<le> r then (if 0 < q then PInf else NInf)
           else Finite (if 0 < q then r else - r))"

fun float64_add :: "float64 \<Rightarrow> float64 \<Rightarrow> float64" where
  "float64_add NaN y = NaN"
| "float64_add x NaN = NaN"
| "float64_add PInf NInf = NaN"
| "float64_add NInf PInf = NaN"
| "float64_add PInf y = PInf"
| "float64_add x PInf = PInf"
| "float64_add NInf y = NInf"
| "float64_add x NInf = NInf"
| "float64_add (Finite a) (Finite b) = round64 (a + b)"

fun float64_mul :: "float64 \<Rightarrow> float64 \<Rightarrow> float64" where
  "float64_mul NaN y = NaN"
| "float64_mul x NaN = NaN"
| "float64_mul (Finite a) (Finite b) = round64 (a * b)"
| "float64_mul (Finite a) PInf = (if a = 0 then NaN else if 0 < a then PInf else NInf)"
| "float64_mul (Finite a) NInf = (if a = 0 then NaN else if 0 < a then NInf else PInf)"
| "float64_mul PInf (Finite b) = (if b = 0 then NaN else if 0 < b then PInf else NInf)"
| "float64_mul NInf (Finite b) = (if b = 0 then NaN else if 0 < b then NInf else PInf)"
| "float64_mul PInf PInf = PInf"
| "float64_mul PInf NInf = NInf"
| "float64_mul NInf PInf = NInf"
| "float64_mul NInf NInf = PInf"

text \<open>Comparisons: every comparison with NaN is false.\<close>

fun float64_le :: "float64 \<Rightarrow> float64 \<Rightarrow> bool" where
  "float64_le NaN y = False"
| "float64_le x NaN = False"
| "float64_le NInf y = True"
| "float64_le x PInf = True"
| "float64_le (Finite a) (Finite b) = (a \<le> b)"
| "float64_le x y = False"

fun float64_less :: "float64 \<Rightarrow> float64 \<Rightarrow> bool" where
  "float64_less NaN y = False"
| "float64_less x NaN = False"
| "float64_less (Finite a) (Finite b) = (a < b)"
| "float64_less NInf NInf = False"
| "float64_less NInf y = True"
| "float64_less PInf y = False"
| "float64_less (Finite a) PInf = True"
| "float64_less (Finite a) NInf = False"

text \<open>The Go operators \<^verbatim>\<open>+\<close>, \<^verbatim>\<open>*\<close>, \<^verbatim>\<open><=\<close>, \<^verbatim>\<open><\<close> and the constant \<^verbatim>\<open>0\<close> at type
  \<^verbatim>\<open>float64\<close>.  These classes carry notation only, no laws.\<close>

instantiation float64 :: "{zero, plus, times, ord}"
begin

definition zero_float64 :: float64 where
  "zero_float64 = Finite 0"

definition plus_float64 :: "float64 \<Rightarrow> float64 \<Rightarrow> float64" where
  "plus_float64 x y = float64_add x y"

definition times_float64 :: "float64 \<Rightarrow> float64 \<Rightarrow> float64" where
  "times_float64 x y = float64_mul x y"

definition less_eq_float64 :: "float64 \<Rightarrow> float64 \<Rightarrow> bool" where
  "less_eq_float64 x y = float64_le x y"

definition less_float64 :: "float64 \<Rightarrow> float64 \<Rightarrow> bool" where
  "less_float64 x y = float64_less x y"

instance ..

end

text \<open>\<^verbatim>\<open>float64(i)\<close> for an \<^verbatim>\<open>int\<close>: the nearest \<^verbatim>\<open>float64\<close>.  Go's \<^verbatim>\<open>int\<close> has 64 bits;
  the sources do no integer arithmetic, so quantities are plain integers here.\<close>

definition float64_of_int :: "int \<Rightarrow> float64" where
  "float64_of_int i = round64 (of_int i)"

text \<open>The sum of a list of \<^verbatim>\<open>float64\<close> taken from the left, starting from \<open>0\<close>, each
  addition rounded.\<close>

definition float64_sum :: "float64 list \<Rightarrow> float64" where
  "float64_sum xs = foldl (+) 0 xs"

text \<open>
  Go's \<^verbatim>\<open>error\<close> values.  Each package-level sentinel (\<^verbatim>\<open>var ErrX = errors.New(..)\<close>)
  is a constructor of its own, since sentinels are compared by identity;
  \<open>ErrorsNew\<close> is an error built by \<^verbatim>\<open>errors.New\<close> at the place of use, \<open>Errorf\<close> is
  \<^verbatim>\<open>fmt.Errorf("<prefix>%w", err)\<close>, and \<open>Foreign\<close> is an error value produced by a
  collaborator (storage, gateway).
\<close>

datatype error =
    ErrInvalidOrderAmount
  | ErrInvalidOrderItems
  | ErrInvalidOrderStatus
  | ErrOrderNotFound
  | ErrOrderStatusTransition
  | ErrInvalidCustomerID
  | application_ErrOrderNotFound
  | ErrPaymentAlreadyExists
  | ErrInvalidPaymentID
  | ErrInvalidPaymentAmount
  | ErrInvalidOrderID
  | ErrInvalidPaymentMethod
  | ErrPaymentNotFound
  | ErrorsNew string
  | Errorf string error
  | Foreign string

text \<open>\<^verbatim>\<open>err.Error()\<close>: the message of an error.\<close>

fun Error :: "error \<Rightarrow> string" where
  "Error ErrInvalidOrderAmount = ''invalid order amount''"
| "Error ErrInvalidOrderItems = ''order must have at least one item''"
| "Error ErrInvalidOrderStatus = ''invalid order status''"
| "Error ErrOrderNotFound = ''order not found''"
| "Error ErrOrderStatusTransition = ''invalid order status transition''"
| "Error ErrInvalidCustomerID = ''invalid customer ID''"
| "Error application_ErrOrderNotFound = ''order not found''"
| "Error ErrPaymentAlreadyExists = ''payment already exists for this order''"
| "Error ErrInvalidPaymentID = ''invalid payment ID''"
| "Error ErrInvalidPaymentAmount = ''invalid payment amount''"
| "Error ErrInvalidOrderID = ''invalid order ID''"
| "Error ErrInvalidPaymentMethod = ''invalid payment method''"
| "Error ErrPaymentNotFound = ''payment not found''"
| "Error (ErrorsNew msg) = msg"
| "Error (Errorf prefix e) = prefix @ Error e"
| "Error (Foreign msg) = msg"

text \<open>\<^verbatim>\<open>errors.Is(err, target)\<close>: identity with the target somewhere along the chain of
  wrapped errors.\<close>

fun errors_Is :: "error \<Rightarrow> error \<Rightarrow> bool" where
  "errors_Is (Errorf prefix e) target = (Errorf prefix e = target \<or> errors_Is e target)"
| "errors_Is e target = (e = target)"

text \<open>
  A Go call either returns or panics (a write to a nil map, a nil pointer dereference).
  Nothing in the modelled packages recovers from a panic.
\<close>

datatype 'a outcome = Returned 'a | Panicked

section \<open>Order domain (package domain of the order module)\<close>

type_synonym OrderStatus = string

definition StatusPending :: OrderStatus where "StatusPending = ''pending''"
definition StatusPaid :: OrderStatus where "StatusPaid = ''paid''"
definition StatusShipped :: OrderStatus where "StatusShipped = ''shipped''"
definition StatusDelivered :: OrderStatus where "StatusDelivered = ''delivered''"
definition StatusCanceled :: OrderStatus where "StatusCanceled = ''canceled''"

record OrderItem =
  item_id :: string
  item_productID :: string
  item_name :: string
  item_price :: float64
  item_quantity :: int

definition NewOrderItem :: "string \<Rightarrow> string \<Rightarrow> string \<Rightarrow> float64 \<Rightarrow> int \<Rightarrow> OrderItem" where
  "NewOrderItem fresh productID name price quantity =
     \<lparr>item_id = fresh, item_productID = productID, item_name = name,
      item_price = price, item_quantity = quantity\<rparr>"

definition Subtotal :: "OrderItem \<Rightarrow> float64" where
  "Subtotal i = item_price i * float64_of_int (item_quantity i)"

record Order =
  order_id :: string
  order_customerID :: string
  order_items :: "OrderItem list"
  order_totalAmount :: float64
  order_status :: OrderStatus
  order_createdAt :: Time
  order_updatedAt :: Time

text \<open>\<^verbatim>\<open>NewOrder\<close>: the loop \<^verbatim>\<open>for _, item := range items { totalAmount += item.Subtotal() }\<close>
  is the left fold from \<open>0\<close>.\<close>

definition NewOrder :: "string \<Rightarrow> Time \<Rightarrow> string \<Rightarrow> OrderItem list \<Rightarrow> error + Order" where
  "NewOrder fresh now customerID items =
     (if length items = 0 then Inl ErrInvalidOrderItems
      else
        let totalAmount = foldl (\<lambda>acc item. acc + Subtotal item) 0 items in
        if totalAmount \<le> 0 then Inl ErrInvalidOrderAmount
        else Inr \<lparr>order_id = fresh, order_customerID = customerID, order_items = items,
                  order_totalAmount = totalAmount, order_status = StatusPending,
                  order_createdAt = now, order_updatedAt = now\<rparr>)"

text \<open>The total as the specification words it: the sum over the items of unit price
  times quantity, as numbers, without rounding.  It is defined when every price is a
  finite number.\<close>

fun spec_total :: "OrderItem list \<Rightarrow> rat option" where
  "spec_total [] = Some 0"
| "spec_total (i # items) =
     (case (item_price i, spec_total items) of
        (Finite p, Some t) \<Rightarrow> Some (p * of_int (item_quantity i) + t)
      | _ \<Rightarrow> None)"

definition isValidStatusTransition :: "OrderStatus \<Rightarrow> OrderStatus \<Rightarrow> bool" where
  "isValidStatusTransition from to =
     (if from = StatusPending then to = StatusPaid \<or> to = StatusCanceled
      else if from = StatusPaid then to = StatusShipped \<or> to = StatusCanceled
      else if from = StatusShipped then to = StatusDelivered \<or> to = StatusCanceled
      else if from = StatusDelivered \<or> from = StatusCanceled then False
      else False)"

text \<open>\<^verbatim>\<open>UpdateStatus\<close> returns the order as the call leaves it, and the error.\<close>

definition UpdateStatus :: "OrderStatus \<Rightarrow> Time \<Rightarrow> Order \<Rightarrow> Order \<times> error option" where
  "UpdateStatus status now ord =
     (if \<not> isValidStatusTransition (order_status ord) status
      then (ord, Some ErrOrderStatusTransition)
      else (ord\<lparr>order_status := status, order_updatedAt := now\<rparr>, None))"

text \<open>The transition table as the specification lists it (section 4.1).\<close>

definition transition_table :: "(OrderStatus \<times> OrderStatus) set" where
  "transition_table =
     {(StatusPending, StatusPaid), (StatusPending, StatusCanceled),
      (StatusPaid, StatusShipped), (StatusPaid, StatusCanceled),
      (StatusShipped, StatusDelivered), (StatusShipped, StatusCanceled)}"

lemmas OrderStatus_defs =
  StatusPending_def StatusPaid_def StatusShipped_def StatusDelivered_def StatusCanceled_def

section \<open>Order use cases (package application of the order module)\<close>

text \<open>
  The repository is an interface.  An implementation acts on an outside world of type
  \<open>'w\<close> (the database) that every call may read and change.  A Go call returns the pair
  \<^verbatim>\<open>(*Order, error)\<close>; both components are kept, since the callers test them separately.
\<close>

record 'w OrderRepository =
  order_Save :: "Order \<Rightarrow> 'w \<Rightarrow> error option \<times> 'w"
  order_FindByID :: "string \<Rightarrow> 'w \<Rightarrow> (Order option \<times> error option) \<times> 'w"
  order_FindByCustomerID :: "string \<Rightarrow> 'w \<Rightarrow> (Order list \<times> error option) \<times> 'w"
  order_Update :: "Order \<Rightarrow> 'w \<Rightarrow> error option \<times> 'w"
  order_Delete :: "string \<Rightarrow> 'w \<Rightarrow> error option \<times> 'w"

record OrderItemRequest =
  req_ProductID :: string
  req_Name :: string
  req_Price :: float64
  req_Quantity :: int

record 'w OrderUseCase =
  order_repo :: "'w OrderRepository"

text \<open>The calls a use case makes on the repository, in the order it makes them.\<close>

datatype order_call =
    Call_order_Save Order
  | Call_order_FindByID string
  | Call_order_Update Order

text \<open>The conversion loop of \<^verbatim>\<open>CreateOrder\<close>: one \<^verbatim>\<open>NewOrderItem\<close>, hence one
  identifier, for each request, in order; \<open>k\<close> counts the identifiers drawn so far.\<close>

fun convert_items :: "(nat \<Rightarrow> string) \<Rightarrow> nat \<Rightarrow> OrderItemRequest list \<Rightarrow> OrderItem list" where
  "convert_items uuid k [] = []"
| "convert_items uuid k (req # reqs) =
     NewOrderItem (uuid k) (req_ProductID req) (req_Name req) (req_Price req) (req_Quantity req)
       # convert_items uuid (Suc k) reqs"

text \<open>A use case returns what the Go method returns (or panics), the calls it made, and
  the world as they leave it.\<close>

definition CreateOrder ::
  "'w OrderUseCase \<Rightarrow> (nat \<Rightarrow> string) \<Rightarrow> Time \<Rightarrow> string \<Rightarrow> OrderItemRequest list \<Rightarrow> 'w
     \<Rightarrow> (Order option \<times> error option) \<times> order_call list \<times> 'w" where
  "CreateOrder uc uuid now customerID itemRequests w =
     (if customerID = [] then ((None, Some ErrInvalidCustomerID), [], w)
      else if length itemRequests = 0 then ((None, Some ErrInvalidOrderItems), [], w)
      else
        let items = convert_items uuid 0 itemRequests in
        case NewOrder (uuid (length itemRequests)) now customerID items of
          Inl err \<Rightarrow> ((None, Some err), [], w)
        | Inr ord \<Rightarrow>
            (case order_Save (order_repo uc) ord w of
               (Some err, w') \<Rightarrow> ((None, Some err), [Call_order_Save ord], w')
             | (None, w') \<Rightarrow> ((Some ord, None), [Call_order_Save ord], w')))"

text \<open>\<^verbatim>\<open>UpdateOrderStatus\<close>: a repository that returns neither an order nor an error makes
  \<^verbatim>\<open>order.UpdateStatus\<close> dereference a nil pointer.\<close>

definition UpdateOrderStatus ::
  "'w OrderUseCase \<Rightarrow> Time \<Rightarrow> string \<Rightarrow> OrderStatus \<Rightarrow> 'w
     \<Rightarrow> (Order option \<times> error option) outcome \<times> order_call list \<times> 'w" where
  "UpdateOrderStatus uc now ident status w =
     (case order_FindByID (order_repo uc) ident w of
        ((_, Some err), w1) \<Rightarrow> (Returned (None, Some err), [Call_order_FindByID ident], w1)
      | ((None, None), w1) \<Rightarrow> (Panicked, [Call_order_FindByID ident], w1)
      | ((Some ord, None), w1) \<Rightarrow>
          (case UpdateStatus status now ord of
             (_, Some err) \<Rightarrow> (Returned (None, Some err), [Call_order_FindByID ident], w1)
           | (ord', None) \<Rightarrow>
               (case order_Update (order_repo uc) ord' w1 of
                  (Some err, w2) \<Rightarrow>
                    (Returned (None, Some err),
                     [Call_order_FindByID ident, Call_order_Update ord'], w2)
                | (None, w2) \<Rightarrow>
                    (Returned (Some ord', None),
                     [Call_order_FindByID ident, Call_order_Update ord'], w2))))"

definition CancelOrder ::
  "'w OrderUseCase \<Rightarrow> Time \<Rightarrow> string \<Rightarrow> 'w
     \<Rightarrow> (Order option \<times> error option) outcome \<times> order_call list \<times> 'w" where
  "CancelOrder uc now ident w = UpdateOrderStatus uc now ident StatusCanceled w"

section \<open>Payment domain (package domain of the payment module)\<close>

type_synonym PaymentStatus = string
type_synonym PaymentMethod = string

definition PaymentStatusPending :: PaymentStatus where "PaymentStatusPending = ''pending''"
definition PaymentStatusApproved :: PaymentStatus where "PaymentStatusApproved = ''approved''"
definition PaymentStatusRejected :: PaymentStatus where "PaymentStatusRejected = ''rejected''"
definition PaymentStatusRefunded :: PaymentStatus where "PaymentStatusRefunded = ''refunded''"

definition PaymentMethodCreditCard :: PaymentMethod where
  "PaymentMethodCreditCard = ''credit_card''"
definition PaymentMethodBankTransfer :: PaymentMethod where
  "PaymentMethodBankTransfer = ''bank_transfer''"
definition PaymentMethodVirtualAccount :: PaymentMethod where
  "PaymentMethodVirtualAccount = ''virtual_account''"

text \<open>\<^verbatim>\<open>paymentData map[string]string\<close>: a Go map value is either nil (\<open>None\<close>) or a
  map; reading a nil map is allowed, writing to it panics.\<close>

record Payment =
  payment_id :: string
  payment_orderID :: string
  payment_amount :: float64
  payment_method :: PaymentMethod
  payment_status :: PaymentStatus
  payment_transactionID :: string
  payment_paymentData :: "(string \<rightharpoonup> string) option"
  payment_createdAt :: Time
  payment_updatedAt :: Time

definition NewPayment ::
  "string \<Rightarrow> Time \<Rightarrow> string \<Rightarrow> float64 \<Rightarrow> PaymentMethod \<Rightarrow> (string \<rightharpoonup> string) option
     \<Rightarrow> error + Payment" where
  "NewPayment fresh now orderID amount meth paymentData =
     (if orderID = [] then Inl ErrInvalidOrderID
      else if amount \<le> 0 then Inl ErrInvalidPaymentAmount
      else if meth = [] then Inl ErrInvalidPaymentMethod
      else Inr \<lparr>payment_id = fresh, payment_orderID = orderID, payment_amount = amount,
                payment_method = meth, payment_status = PaymentStatusPending,
                payment_transactionID = [], payment_paymentData = paymentData,
                payment_createdAt = now, payment_updatedAt = now\<rparr>)"

definition Approve :: "string \<Rightarrow> Time \<Rightarrow> Payment \<Rightarrow> Payment" where
  "Approve transactionID now p =
     p\<lparr>payment_status := PaymentStatusApproved,
       payment_transactionID := transactionID,
       payment_updatedAt := now\<rparr>"

definition Reject :: "string \<Rightarrow> Time \<Rightarrow> Payment \<Rightarrow> Payment outcome" where
  "Reject reason now p =
     (case payment_paymentData p of
        None \<Rightarrow> Panicked
      | Some m \<Rightarrow>
          Returned (p\<lparr>payment_status := PaymentStatusRejected,
                      payment_paymentData := Some (m(''reject_reason'' \<mapsto> reason)),
                      payment_updatedAt := now\<rparr>))"

definition Refund :: "string \<Rightarrow> Time \<Rightarrow> Payment \<Rightarrow> (Payment \<times> error option) outcome" where
  "Refund reason now p =
     (if payment_status p \<noteq> PaymentStatusApproved
      then Returned (p, Some (ErrorsNew ''only approved payments can be refunded''))
      else
        case payment_paymentData p of
          None \<Rightarrow> Panicked
        | Some m \<Rightarrow>
            Returned (p\<lparr>payment_status := PaymentStatusRefunded,
                        payment_paymentData := Some (m(''refund_reason'' \<mapsto> reason)),
                        payment_updatedAt := now\<rparr>, None))"

lemmas PaymentStatus_defs =
  PaymentStatusPending_def PaymentStatusApproved_def PaymentStatusRejected_def
  PaymentStatusRefunded_def

section \<open>Payment use cases (package application of the payment module)\<close>

record 'w PaymentRepository =
  payment_Save :: "Payment \<Rightarrow> 'w \<Rightarrow> error option \<times> 'w"
  payment_FindByID :: "string \<Rightarrow> 'w \<Rightarrow> (Payment option \<times> error option) \<times> 'w"
  payment_FindByOrderID :: "string \<Rightarrow> 'w \<Rightarrow> (Payment option \<times> error option) \<times> 'w"
  payment_Update :: "Payment \<Rightarrow> 'w \<Rightarrow> error option \<times> 'w"

text \<open>
  The gateway interface.  Both methods take a \<^verbatim>\<open>*domain.Payment\<close>.  \<^verbatim>\<open>ProcessPayment\<close> is
  only ever handed a payment whose status was just read, so its parameter is the entity;
  \<^verbatim>\<open>RefundPayment\<close> is handed whatever pointer the repository returned, nil included, so
  its parameter is an optional entity.
\<close>

record 'w PaymentGateway =
  gateway_ProcessPayment :: "Payment \<Rightarrow> 'w \<Rightarrow> (string \<times> error option) \<times> 'w"
  gateway_RefundPayment :: "Payment option \<Rightarrow> string \<Rightarrow> 'w \<Rightarrow> error option \<times> 'w"

record 'w PaymentUseCase =
  repo :: "'w PaymentRepository"
  gateway :: "'w PaymentGateway"

text \<open>The calls a payment use case makes on its collaborators, in order.  The persistence
  writes are \<open>Call_Save\<close> and \<open>Call_Update\<close>; the gateway calls are the last two.\<close>

datatype payment_call =
    Call_FindByOrderID string
  | Call_FindByID string
  | Call_Save Payment
  | Call_Update Payment
  | Call_gateway_ProcessPayment Payment
  | Call_gateway_RefundPayment "Payment option" string

fun is_write :: "payment_call \<Rightarrow> bool" where
  "is_write (Call_Save p) = True"
| "is_write (Call_Update p) = True"
| "is_write c = False"

fun is_gateway_call :: "payment_call \<Rightarrow> bool" where
  "is_gateway_call (Call_gateway_ProcessPayment p) = True"
| "is_gateway_call (Call_gateway_RefundPayment p reason) = True"
| "is_gateway_call c = False"

definition CreatePayment ::
  "'w PaymentUseCase \<Rightarrow> (nat \<Rightarrow> string) \<Rightarrow> Time \<Rightarrow> string \<Rightarrow> float64 \<Rightarrow> PaymentMethod
     \<Rightarrow> (string \<rightharpoonup> string) option \<Rightarrow> 'w
     \<Rightarrow> (Payment option \<times> error option) \<times> payment_call list \<times> 'w" where
  "CreatePayment uc uuid now orderID amount meth paymentData w =
     (case payment_FindByOrderID (repo uc) orderID w of
        ((existingPayment, err), w1) \<Rightarrow>
          (case (case err of
                   None \<Rightarrow> None
                 | Some e \<Rightarrow> if \<not> errors_Is e ErrPaymentNotFound then Some e else None) of
             Some e \<Rightarrow>
               ((None, Some (Errorf ''failed to check existing payment: '' e)),
                [Call_FindByOrderID orderID], w1)
           | None \<Rightarrow>
               if existingPayment \<noteq> None
               then ((None, Some ErrPaymentAlreadyExists), [Call_FindByOrderID orderID], w1)
               else
                 (case NewPayment (uuid 0) now orderID amount meth paymentData of
                    Inl e \<Rightarrow> ((None, Some e), [Call_FindByOrderID orderID], w1)
                  | Inr payment \<Rightarrow>
                      (case payment_Save (repo uc) payment w1 of
                         (Some e, w2) \<Rightarrow>
                           ((None, Some (Errorf ''failed to save payment: '' e)),
                            [Call_FindByOrderID orderID, Call_Save payment], w2)
                       | (None, w2) \<Rightarrow>
                           ((Some payment, None),
                            [Call_FindByOrderID orderID, Call_Save payment], w2)))))"

definition ProcessPayment ::
  "'w PaymentUseCase \<Rightarrow> Time \<Rightarrow> string \<Rightarrow> 'w
     \<Rightarrow> (Payment option \<times> error option) outcome \<times> payment_call list \<times> 'w" where
  "ProcessPayment uc now paymentID w =
     (if paymentID = [] then (Returned (None, Some ErrInvalidPaymentID), [], w)
      else
        case payment_FindByID (repo uc) paymentID w of
          ((_, Some err), w1) \<Rightarrow> (Returned (None, Some err), [Call_FindByID paymentID], w1)
        | ((None, None), w1) \<Rightarrow> (Panicked, [Call_FindByID paymentID], w1)
        | ((Some payment, None), w1) \<Rightarrow>
            if payment_status payment \<noteq> PaymentStatusPending
            then (Returned (Some payment, None), [Call_FindByID paymentID], w1)
            else
              (case gateway_ProcessPayment (gateway uc) payment w1 of
                 ((transactionID, Some err), w2) \<Rightarrow>
                   (case Reject (Error err) now payment of
                      Panicked \<Rightarrow>
                        (Panicked,
                         [Call_FindByID paymentID, Call_gateway_ProcessPayment payment], w2)
                    | Returned rejected \<Rightarrow>
                        (case payment_Update (repo uc) rejected w2 of
                           (Some updateErr, w3) \<Rightarrow>
                             (Returned (None, Some (Errorf
                                ''failed to update payment status after rejection: '' updateErr)),
                              [Call_FindByID paymentID, Call_gateway_ProcessPayment payment,
                               Call_Update rejected], w3)
                         | (None, w3) \<Rightarrow>
                             (Returned (Some rejected,
                                Some (Errorf ''payment processing failed: '' err)),
                              [Call_FindByID paymentID, Call_gateway_ProcessPayment payment,
                               Call_Update rejected], w3)))
               | ((transactionID, None), w2) \<Rightarrow>
                   (let approved = Approve transactionID now payment in
                    case payment_Update (repo uc) approved w2 of
                      (Some err, w3) \<Rightarrow>
                        (Returned (None, Some (Errorf
                           ''failed to update payment status after approval: '' err)),
                         [Call_FindByID paymentID, Call_gateway_ProcessPayment payment,
                          Call_Update approved], w3)
                    | (None, w3) \<Rightarrow>
                        (Returned (Some approved, None),
                         [Call_FindByID paymentID, Call_gateway_ProcessPayment payment,
                          Call_Update approved], w3))))"

definition RefundPayment ::
  "'w PaymentUseCase \<Rightarrow> Time \<Rightarrow> string \<Rightarrow> string \<Rightarrow> 'w
     \<Rightarrow> (Payment option \<times> error option) outcome \<times> payment_call list \<times> 'w" where
  "RefundPayment uc now ident reason w =
     (if ident = [] then (Returned (None, Some ErrInvalidPaymentID), [], w)
      else
        case payment_FindByID (repo uc) ident w of
          ((_, Some err), w1) \<Rightarrow> (Returned (None, Some err), [Call_FindByID ident], w1)
        | ((ptr, None), w1) \<Rightarrow>
            (case gateway_RefundPayment (gateway uc) ptr reason w1 of
               (Some err, w2) \<Rightarrow>
                 (Returned (None, Some (Errorf ''refund processing failed: '' err)),
                  [Call_FindByID ident, Call_gateway_RefundPayment ptr reason], w2)
             | (None, w2) \<Rightarrow>
                 (case ptr of
                    None \<Rightarrow>
                      (Panicked,
                       [Call_FindByID ident, Call_gateway_RefundPayment ptr reason], w2)
                  | Some payment \<Rightarrow>
                      (case Refund reason now payment of
                         Panicked \<Rightarrow>
                           (Panicked,
                            [Call_FindByID ident, Call_gateway_RefundPayment ptr reason], w2)
                       | Returned (_, Some err) \<Rightarrow>
                           (Returned (None, Some err),
                            [Call_FindByID ident, Call_gateway_RefundPayment ptr reason], w2)
                       | Returned (refunded, None) \<Rightarrow>
                           (case payment_Update (repo uc) refunded w2 of
                              (Some err, w3) \<Rightarrow>
                                (Returned (None, Some (Errorf
                                   ''failed to update payment status after refund: '' err)),
                                 [Call_FindByID ident, Call_gateway_RefundPayment ptr reason,
                                  Call_Update refunded], w3)
                            | (None, w3) \<Rightarrow>
                                (Returned (Some refunded, None),
                                 [Call_FindByID ident, Call_gateway_RefundPayment ptr reason,
                                  Call_Update refunded], w3))))))"

section \<open>Collaborators used to run the use cases\<close>

text \<open>\<^verbatim>\<open>DummyPaymentGateway\<close> of \<^verbatim>\<open>cmd/service/main.go\<close>: every payment is accepted with
  the transaction reference \<^verbatim>\<open>"txn_" + payment.ID()\<close>, every refund succeeds.\<close>

definition DummyPaymentGateway :: "'w PaymentGateway" where
  "DummyPaymentGateway =
     \<lparr>gateway_ProcessPayment = (\<lambda>payment w. ((''txn_'' @ payment_id payment, None), w)),
      gateway_RefundPayment = (\<lambda>ptr reason w. (None, w))\<rparr>"

text \<open>A gateway that declines every payment and every refund, and in-memory repositories
  after the pattern of \<^verbatim>\<open>FakeMemberRepository\<close> in the member module's tests (entities
  keyed by identifier; a missing key is the not-found error).  They stand in for the
  real collaborators where a use case is run on concrete data.\<close>

definition DecliningGateway :: "'w PaymentGateway" where
  "DecliningGateway =
     \<lparr>gateway_ProcessPayment = (\<lambda>payment w. (([], Some (Foreign ''card declined'')), w)),
      gateway_RefundPayment = (\<lambda>ptr reason w. (Some (Foreign ''refund declined''), w))\<rparr>"

definition FakePaymentRepository :: "(Payment list) PaymentRepository" where
  "FakePaymentRepository =
     \<lparr>payment_Save = (\<lambda>p w. (None, p # filter (\<lambda>q. payment_id q \<noteq> payment_id p) w)),
      payment_FindByID = (\<lambda>ident w.
         (case find (\<lambda>q. payment_id q = ident) w of
            None \<Rightarrow> ((None, Some ErrPaymentNotFound), w)
          | Some q \<Rightarrow> ((Some q, None), w))),
      payment_FindByOrderID = (\<lambda>orderID w.
         (case find (\<lambda>q. payment_orderID q = orderID) w of
            None \<Rightarrow> ((None, Some ErrPaymentNotFound), w)
          | Some q \<Rightarrow> ((Some q, None), w))),
      payment_Update = (\<lambda>p w. (None, p # filter (\<lambda>q. payment_id q \<noteq> payment_id p) w))\<rparr>"

text \<open>The in-memory repository with a store that refuses every update.\<close>

definition RefusingUpdateRepository :: "(Payment list) PaymentRepository" where
  "RefusingUpdateRepository =
     FakePaymentRepository
       \<lparr>payment_Update := (\<lambda>p w. (Some (Foreign ''connection lost''), w))\<rparr>"

definition FakeOrderRepository :: "(Order list) OrderRepository" where
  "FakeOrderRepository =
     \<lparr>order_Save = (\<lambda>ord w. (None, ord # filter (\<lambda>q. order_id q \<noteq> order_id ord) w)),
      order_FindByID = (\<lambda>ident w.
         (case find (\<lambda>q. order_id q = ident) w of
            None \<Rightarrow> ((None, Some ErrOrderNotFound), w)
          | Some q \<Rightarrow> ((Some q, None), w))),
      order_FindByCustomerID = (\<lambda>customerID w.
         ((filter (\<lambda>q. order_customerID q = customerID) w, None), w)),
      order_Update = (\<lambda>ord w. (None, ord # filter (\<lambda>q. order_id q \<noteq> order_id ord) w)),
      order_Delete = (\<lambda>ident w.
         (case find (\<lambda>q. order_id q = ident) w of
            None \<Rightarrow> (Some ErrOrderNotFound, w)
          | Some q \<Rightarrow> (None, filter (\<lambda>q. order_id q \<noteq> ident) w)))\<rparr>"

text \<open>Concrete entities: the order and the payment of the specification's scenario
  (section 8), and the same payment as \<^verbatim>\<open>NewPayment\<close> builds it when the caller
  passes no auxiliary data (a nil map).\<close>

definition scenario_requests :: "OrderItemRequest list" where
  "scenario_requests =
     [\<lparr>req_ProductID = ''prod-1'', req_Name = ''laptop'',
        req_Price = Finite 1000000, req_Quantity = 1\<rparr>,
      \<lparr>req_ProductID = ''prod-2'', req_Name = ''mouse'',
        req_Price = Finite 50000, req_Quantity = 2\<rparr>]"

definition scenario_order :: Order where
  "scenario_order =
     \<lparr>order_id = ''order-1'', order_customerID = ''customer-1'',
      order_items = [NewOrderItem ''item-1'' ''prod-1'' ''laptop'' (Finite 1000000) 1,
                     NewOrderItem ''item-2'' ''prod-2'' ''mouse'' (Finite 50000) 2],
      order_totalAmount = Finite 1100000, order_status = StatusPending,
      order_createdAt = 1, order_updatedAt = 1\<rparr>"

definition scenario_payment :: Payment where
  "scenario_payment =
     \<lparr>payment_id = ''pay-1'', payment_orderID = ''order-1'', payment_amount = Finite 1100000,
      payment_method = PaymentMethodCreditCard, payment_status = PaymentStatusPending,
      payment_transactionID = [], payment_paymentData = Some Map.empty,
      payment_createdAt = 2, payment_updatedAt = 2\<rparr>"

definition payment_without_data :: Payment where
  "payment_without_data = scenario_payment\<lparr>payment_paymentData := None\<rparr>"

definition scenario_uuid :: "nat \<Rightarrow> string" where
  "scenario_uuid k = (if k = 0 then ''item-1'' else if k = 1 then ''item-2'' else ''order-1'')"

section \<open>Facts about float64\<close>

lemma int_bounds_powi:
  fixes x :: int
  assumes "0 < x"
  shows "(2::rat) powi (bitlen x - 1) \<le> of_int x" and "of_int x < (2::rat) powi (bitlen x)"
proof -
  from assms have b: "1 \<le> bitlen x" by (auto simp: bitlen_alt_def)
  from bitlen_bounds [OF assms]
  have lo: "2 ^ nat (bitlen x - 1) \<le> x" and hi: "x < 2 ^ nat (bitlen x)" by simp_all
  from lo have "(of_int (2 ^ nat (bitlen x - 1)) :: rat) \<le> of_int x"
    by (simp only: of_int_le_iff)
  with b show "(2::rat) powi (bitlen x - 1) \<le> of_int x"
    by (simp add: power_int_def)
  from hi have "(of_int x :: rat) < of_int (2 ^ nat (bitlen x))"
    by (simp only: of_int_less_iff)
  with b show "of_int x < (2::rat) powi (bitlen x)"
    by (simp add: power_int_def)
qed

lemma ilog2_bounds:
  assumes "0 < a"
  shows "2 powi (ilog2 a) \<le> a \<and> a < 2 powi (ilog2 a + 1)"
proof -
  obtain n d where q: "quotient_of a = (n, d)" by (cases "quotient_of a")
  then have d: "0 < d" and a: "a = of_int n / of_int d"
    by (simp_all add: quotient_of_denom_pos quotient_of_div)
  with assms have n: "0 < n" by (simp add: zero_less_divide_iff)
  let ?k = "bitlen n - bitlen d"
  from int_bounds_powi [OF n] int_bounds_powi [OF d]
  have n1: "(2::rat) powi (bitlen n - 1) \<le> of_int n" and n2: "of_int n < (2::rat) powi (bitlen n)"
    and d1: "(2::rat) powi (bitlen d - 1) \<le> of_int d" and d2: "of_int d < (2::rat) powi (bitlen d)"
    by simp_all
  have dpos: "(0::rat) < of_int d" using d by simp
  have npos: "(0::rat) < of_int n" using n by simp
  have "a < 2 powi (bitlen n) / 2 powi (bitlen d - 1)"
    unfolding a using n2 d1 npos
    by (intro frac_less) simp_all
  also have "\<dots> = 2 powi (?k + 1)"
    by (simp add: power_int_diff power_int_add)
  finally have up: "a < 2 powi (?k + 1)" .
  have "2 powi (bitlen n - 1) / 2 powi (bitlen d) < a"
    unfolding a using n1 d2 dpos
    by (intro frac_less2) simp_all
  then have lo: "2 powi (?k - 1) < a"
    by (simp add: power_int_diff power_int_add algebra_simps)
  show ?thesis
    using up lo q by (auto simp: ilog2_def Let_def not_le)
qed

lemma ilog2_eqI:
  assumes "2 powi e \<le> a" and "a < 2 powi (e + 1)"
  shows "ilog2 a = e"
proof -
  have pos: "0 < a"
    using assms(1) by (rule less_le_trans [rotated]) simp
  from ilog2_bounds [OF pos]
  have l: "2 powi (ilog2 a) \<le> a" and u: "a < 2 powi (ilog2 a + 1)" by simp_all
  have 1: "e < ilog2 a + 1"
  proof (rule ccontr)
    assume "\<not> e < ilog2 a + 1"
    then have "(2::rat) powi (ilog2 a + 1) \<le> 2 powi e"
      by (intro power_int_increasing) simp_all
    with u assms(1) show False by simp
  qed
  have 2: "ilog2 a < e + 1"
  proof (rule ccontr)
    assume "\<not> ilog2 a < e + 1"
    then have "(2::rat) powi (e + 1) \<le> 2 powi (ilog2 a)"
      by (intro power_int_increasing) simp_all
    with l assms(2) show False by simp
  qed
  from 1 2 show ?thesis by simp
qed

text \<open>Rounding a number whose binary exponent is known.\<close>

lemma round64_pos:
  assumes "2 powi e \<le> a" and "a < 2 powi (e + 1)"
  shows "round64 a =
     (let ulp = 2 powi (max e (- 1022) - 52);
          r = of_int (round_half_even (a / ulp)) * ulp
      in if 2 powi 1024 \<le> r then PInf else Finite r)"
proof -
  have pos: "0 < a"
    using assms(1) by (rule less_le_trans [rotated]) simp
  with ilog2_eqI [OF assms] show ?thesis
    by (simp add: round64_def Let_def)
qed

lemma round64_neg:
  assumes "2 powi e \<le> a" and "a < 2 powi (e + 1)"
  shows "round64 (- a) =
     (let ulp = 2 powi (max e (- 1022) - 52);
          r = of_int (round_half_even (a / ulp)) * ulp
      in if 2 powi 1024 \<le> r then NInf else Finite (- r))"
proof -
  have pos: "0 < a"
    using assms(1) by (rule less_le_trans [rotated]) simp
  with ilog2_eqI [OF assms] show ?thesis
    by (simp add: round64_def Let_def)
qed

lemma floor_rat_numeral:
  "\<lfloor>numeral k / numeral l :: rat\<rfloor> = numeral k div numeral l"
  "\<lfloor>1 / numeral l :: rat\<rfloor> = 1 div numeral l"
  using floor_divide_of_int_eq [of "numeral k" "numeral l", where ?'a = rat]
    floor_divide_of_int_eq [of 1 "numeral l", where ?'a = rat]
  by simp_all

lemmas round64_eval = round_half_even_def Let_def floor_rat_numeral

text \<open>Values used below.  Integers of moderate size are themselves \<^verbatim>\<open>float64\<close>;
  \<open>10^16 + 1\<close> lies halfway between two and rounds to the even one; \<open>0.1\<close> is not a
  \<^verbatim>\<open>float64\<close>; ten times the \<^verbatim>\<open>float64\<close> nearest to \<open>10^308\<close> is beyond the largest.\<close>

lemma round64_values:
  "round64 0 = Finite 0"
  "round64 1 = Finite 1"
  "round64 2 = Finite 2"
  "round64 10 = Finite 10"
  "round64 (- 3) = Finite (- 3)"
  "round64 (- 5) = Finite (- 5)"
  "round64 15 = Finite 15"
  "round64 20 = Finite 20"
  "round64 100000 = Finite 100000"
  "round64 1000000 = Finite 1000000"
  "round64 1100000 = Finite 1100000"
  "round64 10000000000000000 = Finite 10000000000000000"
  "round64 (- 10000000000000000) = Finite (- 10000000000000000)"
  "round64 10000000000000001 = Finite 10000000000000000"
  "round64 (1 / 10) = Finite (3602879701896397 / 36028797018963968)"
                apply (simp add: round64_def)
               apply (simp add: round64_pos [where e = 0] round64_eval)
              apply (simp add: round64_pos [where e = 1] round64_eval)
             apply (simp add: round64_pos [where e = 3] round64_eval)
            apply (simp add: round64_neg [where e = 1] round64_eval)
           apply (simp add: round64_neg [where e = 2] round64_eval)
          apply (simp add: round64_pos [where e = 3] round64_eval)
         apply (simp add: round64_pos [where e = 4] round64_eval)
        apply (simp add: round64_pos [where e = 16] round64_eval)
       apply (simp add: round64_pos [where e = 19] round64_eval)
      apply (simp add: round64_pos [where e = 20] round64_eval)
     apply (simp add: round64_pos [where e = 53] round64_eval)
    apply (simp add: round64_neg [where e = 53] round64_eval)
   apply (simp add: round64_pos [where e = 53] round64_eval)
  apply (simp add: round64_pos [where e = "- 4"] round64_eval)
  done

lemma round64_1e308:
  "round64 (10 ^ 308) = Finite (5010420900022432 * 2 ^ 971)"
  "round64 (5010420900022432 * 2 ^ 971 * 10) = PInf"
  "round64 (- (5010420900022432 * 2 ^ 971 * 10)) = NInf"
    apply (simp add: round64_pos [where e = 1023] round64_eval)
   apply (simp add: round64_pos [where e = 1026] round64_eval)
  apply (simp add: round64_neg [where e = 1026] round64_eval)
  done

text \<open>At the limits: halfway between the largest \<^verbatim>\<open>float64\<close> and \<open>2^1024\<close> rounds to
  infinity; half the smallest positive \<^verbatim>\<open>float64\<close> rounds to zero, one and a half times
  it to twice it.\<close>

lemma round64_limits:
  "round64 (2 ^ 1024 - 2 ^ 970) = PInf"
  "round64 (2 ^ 1024 - 2 ^ 970 - 1) = Finite ((2 ^ 53 - 1) * 2 ^ 971)"
  "round64 (1 / 2 ^ 1075) = Finite 0"
  "round64 (3 / 2 ^ 1075) = Finite (1 / 2 ^ 1073)"
     apply (simp add: round64_pos [where e = 1023] round64_eval)
    apply (simp add: round64_pos [where e = 1023] round64_eval)
   apply (simp add: round64_pos [where e = "- 1075"] round64_eval)
  apply (simp add: round64_pos [where e = "- 1074"] round64_eval)
  done

lemmas float64_ops =
  zero_float64_def plus_float64_def times_float64_def less_eq_float64_def less_float64_def
  float64_of_int_def float64_sum_def

lemma float64_not_le_zero:
  "\<not> x \<le> 0 \<Longrightarrow> x \<noteq> NaN \<Longrightarrow> 0 < (x::float64)"
  by (cases x) (simp_all add: float64_ops)

lemma float64_pos_not_le_zero:
  "0 < x \<Longrightarrow> \<not> x \<le> (0::float64)"
  by (cases x) (simp_all add: float64_ops)

section \<open>The order status state machine\<close>

lemma isValidStatusTransition_table:
  "isValidStatusTransition from to \<longleftrightarrow> (from, to) \<in> transition_table"
  by (simp add: isValidStatusTransition_def transition_table_def OrderStatus_defs)

text \<open>
  Claim C1.  For every order, every requested target status and every instant of the
  call, \<open>UpdateStatus\<close> returns without error exactly when the pair (current status,
  target status) is one of the six pairs of the transition table.  On a pair outside the
  table it returns \<open>ErrOrderStatusTransition\<close> and the order is left as it was (status
  and updated-timestamp included); on a pair of the table the status becomes the target
  and the updated-timestamp becomes the instant of the call, nothing else changes.
\<close>

theorem UpdateStatus_iff_transition_table:
  "((\<exists>ord'. UpdateStatus status now ord = (ord', None))
      \<longleftrightarrow> (order_status ord, status) \<in> transition_table)
   \<and> ((order_status ord, status) \<notin> transition_table \<longrightarrow>
        UpdateStatus status now ord = (ord, Some ErrOrderStatusTransition))
   \<and> ((order_status ord, status) \<in> transition_table \<longrightarrow>
        UpdateStatus status now ord
          = (ord\<lparr>order_status := status, order_updatedAt := now\<rparr>, None))"
  by (simp add: UpdateStatus_def isValidStatusTransition_table)

text \<open>The scenario order, pending: paying it is allowed, delivering it is refused.\<close>

theorem UpdateStatus_iff_transition_table_witness:
  "(order_status scenario_order, StatusPaid) \<in> transition_table
   \<and> UpdateStatus StatusPaid 7 scenario_order
       = (scenario_order\<lparr>order_status := StatusPaid, order_updatedAt := 7\<rparr>, None)
   \<and> (order_status scenario_order, StatusDelivered) \<notin> transition_table
   \<and> UpdateStatus StatusDelivered 7 scenario_order
       = (scenario_order, Some ErrOrderStatusTransition)"
proof -
  have allowed: "(order_status scenario_order, StatusPaid) \<in> transition_table"
    by (simp add: scenario_order_def transition_table_def)
  have refused: "(order_status scenario_order, StatusDelivered) \<notin> transition_table"
    by (simp add: scenario_order_def transition_table_def OrderStatus_defs)
  from allowed refused
    UpdateStatus_iff_transition_table [of StatusPaid 7 scenario_order]
    UpdateStatus_iff_transition_table [of StatusDelivered 7 scenario_order]
  show ?thesis by blast
qed

section \<open>Order creation\<close>

lemma foldl_Subtotal:
  "foldl (\<lambda>acc item. acc + Subtotal item) a items
     = foldl (+) a (map (\<lambda>item. item_price item * float64_of_int (item_quantity item)) items)"
  by (induction items arbitrary: a) (simp_all add: Subtotal_def)

lemma NewOrder_cases:
  "NewOrder fresh now customerID items =
     (if items = [] then Inl ErrInvalidOrderItems
      else if float64_sum (map (\<lambda>item. item_price item * float64_of_int (item_quantity item))
                items) \<le> 0
      then Inl ErrInvalidOrderAmount
      else Inr \<lparr>order_id = fresh, order_customerID = customerID, order_items = items,
                order_totalAmount =
                  float64_sum (map (\<lambda>item. item_price item * float64_of_int (item_quantity item))
                    items),
                order_status = StatusPending,
                order_createdAt = now, order_updatedAt = now\<rparr>)"
  by (simp add: NewOrder_def foldl_Subtotal float64_sum_def Let_def)

lemma convert_items_subtotals:
  "map (\<lambda>item. item_price item * float64_of_int (item_quantity item)) (convert_items uuid k reqs)
     = map (\<lambda>req. req_Price req * float64_of_int (req_Quantity req)) reqs"
  by (induction reqs arbitrary: k) (simp_all add: NewOrderItem_def)

text \<open>
  Claim C6, as amended.  An order built by \<open>NewOrder\<close> has as total amount the
  \<^verbatim>\<open>float64\<close> sum, taken from the left starting from \<open>0\<close>, of the \<^verbatim>\<open>float64\<close> products
  unit price times \<^verbatim>\<open>float64(quantity)\<close>: every product and every addition is rounded,
  so the total need not be the sum of the specification.  The total is never at most
  zero, and it is strictly positive whenever it is a number.  The items are the ones
  given and there is at least one.  The total is fixed at creation: \<open>UpdateStatus\<close>, the
  only mutation, leaves it as it is.  With an empty item list \<open>NewOrder\<close> returns
  \<open>ErrInvalidOrderItems\<close>; \<open>CreateOrder\<close> with an empty request list returns no order,
  makes no repository call and leaves the world as it is (the error is
  \<open>ErrInvalidOrderItems\<close>, unless the customer identifier is empty, which is reported
  first).  An order returned by \<open>CreateOrder\<close> has the \<^verbatim>\<open>float64\<close> total of its requests
  and was saved once.
\<close>

theorem NewOrder_totalAmount:
  "(NewOrder fresh now customerID items = Inr ord \<longrightarrow>
      order_totalAmount ord
        = float64_sum (map (\<lambda>item. item_price item * float64_of_int (item_quantity item)) items)
      \<and> \<not> order_totalAmount ord \<le> 0
      \<and> (order_totalAmount ord \<noteq> NaN \<longrightarrow> 0 < order_totalAmount ord)
      \<and> order_items ord = items \<and> items \<noteq> [])
   \<and> order_totalAmount (fst (UpdateStatus status now' ord)) = order_totalAmount ord
   \<and> NewOrder fresh now customerID [] = Inl ErrInvalidOrderItems
   \<and> (CreateOrder uc uuid now customerID [] w
        = ((None, Some (if customerID = [] then ErrInvalidCustomerID else ErrInvalidOrderItems)),
           [], w))
   \<and> (CreateOrder uc uuid now customerID reqs w = ((Some ord, None), calls, w') \<longrightarrow>
        order_totalAmount ord
          = float64_sum (map (\<lambda>req. req_Price req * float64_of_int (req_Quantity req)) reqs)
        \<and> \<not> order_totalAmount ord \<le> 0 \<and> calls = [Call_order_Save ord])"
proof (intro conjI impI)
  assume built: "NewOrder fresh now customerID items = Inr ord"
  then show total: "order_totalAmount ord
        = float64_sum (map (\<lambda>item. item_price item * float64_of_int (item_quantity item)) items)"
     and positive: "\<not> order_totalAmount ord \<le> 0"
     and "order_items ord = items" and "items \<noteq> []"
    by (auto simp: NewOrder_cases split: if_splits)
  assume "order_totalAmount ord \<noteq> NaN"
  with positive show "0 < order_totalAmount ord"
    by (simp add: float64_not_le_zero)
next
  show "order_totalAmount (fst (UpdateStatus status now' ord)) = order_totalAmount ord"
    by (simp add: UpdateStatus_def)
next
  show "NewOrder fresh now customerID [] = Inl ErrInvalidOrderItems"
    by (simp add: NewOrder_def)
next
  show "CreateOrder uc uuid now customerID [] w
        = ((None, Some (if customerID = [] then ErrInvalidCustomerID else ErrInvalidOrderItems)),
           [], w)"
    by (simp add: CreateOrder_def)
next
  assume created: "CreateOrder uc uuid now customerID reqs w = ((Some ord, None), calls, w')"
  then have "NewOrder (uuid (length reqs)) now customerID (convert_items uuid 0 reqs) = Inr ord
             \<and> calls = [Call_order_Save ord]"
    by (auto simp: CreateOrder_def Let_def split: if_splits sum.splits option.splits prod.splits)
  then show "order_totalAmount ord
          = float64_sum (map (\<lambda>req. req_Price req * float64_of_int (req_Quantity req)) reqs)"
     and "\<not> order_totalAmount ord \<le> 0" and "calls = [Call_order_Save ord]"
    by (auto simp: NewOrder_cases convert_items_subtotals split: if_splits)
qed

lemmas order_eval =
  NewOrder_def NewOrderItem_def Subtotal_def float64_ops round64_values Let_def

text \<open>Prices \<open>10^16\<close> and \<open>1\<close>, one of each: the order is created with total \<open>10^16\<close>,
  while the sum of price times quantity is \<open>10^16 + 1\<close>.\<close>

theorem NewOrder_total_is_rounded_counterexample:
  "NewOrder ''order-2'' 3 ''customer-1''
       [NewOrderItem ''a'' ''prod-1'' ''estate'' (Finite 10000000000000000) 1,
        NewOrderItem ''b'' ''prod-2'' ''stamp'' (Finite 1) 1]
     = Inr \<lparr>order_id = ''order-2'', order_customerID = ''customer-1'',
            order_items =
              [NewOrderItem ''a'' ''prod-1'' ''estate'' (Finite 10000000000000000) 1,
               NewOrderItem ''b'' ''prod-2'' ''stamp'' (Finite 1) 1],
            order_totalAmount = Finite 10000000000000000, order_status = StatusPending,
            order_createdAt = 3, order_updatedAt = 3\<rparr>
   \<and> spec_total
       [NewOrderItem ''a'' ''prod-1'' ''estate'' (Finite 10000000000000000) 1,
        NewOrderItem ''b'' ''prod-2'' ''stamp'' (Finite 1) 1]
     = Some 10000000000000001"
  by (simp add: order_eval)

text \<open>The scenario of the specification: items 1000000 x 1 and 50000 x 2, total 1100000.\<close>

theorem NewOrder_totalAmount_witness:
  "NewOrder ''order-1'' 1 ''customer-1'' (order_items scenario_order) = Inr scenario_order
   \<and> CreateOrder \<lparr>order_repo = FakeOrderRepository\<rparr> scenario_uuid 1 ''customer-1''
         scenario_requests []
       = ((Some scenario_order, None), [Call_order_Save scenario_order], [scenario_order])
   \<and> order_totalAmount scenario_order = Finite 1100000
   \<and> order_totalAmount scenario_order
       = float64_sum (map (\<lambda>req. req_Price req * float64_of_int (req_Quantity req))
           scenario_requests)
   \<and> 0 < order_totalAmount scenario_order"
proof -
  let ?uc = "\<lparr>order_repo = FakeOrderRepository\<rparr>"
  have built: "NewOrder ''order-1'' 1 ''customer-1'' (order_items scenario_order)
                 = Inr scenario_order"
    by (simp add: scenario_order_def order_eval)
  have created: "CreateOrder ?uc scenario_uuid 1 ''customer-1'' scenario_requests []
       = ((Some scenario_order, None), [Call_order_Save scenario_order], [scenario_order])"
    by (simp add: CreateOrder_def scenario_requests_def scenario_uuid_def
        scenario_order_def FakeOrderRepository_def order_eval)
  have number: "order_totalAmount scenario_order \<noteq> NaN"
    and amount: "order_totalAmount scenario_order = Finite 1100000"
    by (simp_all add: scenario_order_def)
  note scenario =
    NewOrder_totalAmount [where fresh = "''order-1''" and now = 1
      and customerID = "''customer-1''" and items = "order_items scenario_order"
      and ord = scenario_order and uc = ?uc
      and uuid = scenario_uuid and reqs = scenario_requests and w = "[]"
      and calls = "[Call_order_Save scenario_order]" and w' = "[scenario_order]"]
  have positive: "0 < order_totalAmount scenario_order"
    by (rule scenario [THEN conjunct1, THEN mp, OF built, THEN conjunct2, THEN conjunct2,
          THEN conjunct1, THEN mp, OF number])
  have total: "order_totalAmount scenario_order
       = float64_sum (map (\<lambda>req. req_Price req * float64_of_int (req_Quantity req))
           scenario_requests)"
    by (rule scenario [THEN conjunct2, THEN conjunct2, THEN conjunct2, THEN conjunct2,
          THEN mp, OF created, THEN conjunct1])
  from built created amount total positive show ?thesis by simp
qed

text \<open>A total that is not a number is outside the amended claim.  The guard
  \<^verbatim>\<open>totalAmount <= 0\<close> is false for NaN: for prices \<^verbatim>\<open>1e308\<close> and \<^verbatim>\<open>-1e308\<close>, ten of
  each, the subtotals are the two infinities, their sum is NaN, and the order is
  created.\<close>

lemma NewOrder_NaN_total:
  "NewOrder ''order-2'' 3 ''customer-1''
       [NewOrderItem ''a'' ''prod-1'' ''estate'' (round64 (10 ^ 308)) 10,
        NewOrderItem ''b'' ''prod-2'' ''rebate'' (round64 (- (10 ^ 308))) 10]
     = Inr \<lparr>order_id = ''order-2'', order_customerID = ''customer-1'',
            order_items =
              [NewOrderItem ''a'' ''prod-1'' ''estate'' (round64 (10 ^ 308)) 10,
               NewOrderItem ''b'' ''prod-2'' ''rebate'' (round64 (- (10 ^ 308))) 10],
            order_totalAmount = NaN, order_status = StatusPending,
            order_createdAt = 3, order_updatedAt = 3\<rparr>"
  by (simp add: order_eval round64_pos [where e = 1023] round64_neg [where e = 1023]
      round64_pos [where e = 1026] round64_neg [where e = 1026] round64_eval)

text \<open>
  Claim C10, as amended.  Items are not validated one by one: \<open>NewOrderItem\<close> stores the
  price and the quantity it is given, whatever they are.  \<open>NewOrder\<close> succeeds exactly
  when the list is non-empty and the \<^verbatim>\<open>float64\<close> sum of the subtotals, each product and
  each addition rounded as \<open>NewOrder\<close> computes them, is not at most zero; in particular
  it succeeds whenever the list is non-empty and that sum is strictly positive.  It
  fails only for an empty list (\<open>ErrInvalidOrderItems\<close>) or for such a total at most
  zero (\<open>ErrInvalidOrderAmount\<close>).
\<close>

theorem NewOrder_validates_only_the_total:
  "((\<exists>ord. NewOrder fresh now customerID items = Inr ord) \<longleftrightarrow>
      items \<noteq> [] \<and> \<not> float64_sum (map Subtotal items) \<le> 0)
   \<and> (items \<noteq> [] \<and> 0 < float64_sum (map Subtotal items) \<longrightarrow>
        (\<exists>ord. NewOrder fresh now customerID items = Inr ord))
   \<and> (NewOrder fresh now customerID items = Inl ErrInvalidOrderItems \<longleftrightarrow> items = [])
   \<and> (NewOrder fresh now customerID items = Inl ErrInvalidOrderAmount \<longleftrightarrow>
        items \<noteq> [] \<and> float64_sum (map Subtotal items) \<le> 0)
   \<and> (\<exists>e. NewOrder fresh now customerID items = Inl e)
       = (items = [] \<or> float64_sum (map Subtotal items) \<le> 0)
   \<and> item_price (NewOrderItem fresh' productID name price quantity) = price
   \<and> item_quantity (NewOrderItem fresh' productID name price quantity) = quantity
   \<and> Subtotal (NewOrderItem fresh' productID name price quantity)
       = price * float64_of_int quantity"
proof -
  have subtotals: "map Subtotal items
      = map (\<lambda>item. item_price item * float64_of_int (item_quantity item)) items"
    by (simp add: Subtotal_def)
  show ?thesis
    by (auto simp: NewOrder_cases subtotals NewOrderItem_def Subtotal_def
        dest: float64_pos_not_le_zero)
qed

text \<open>Prices \<open>10^16\<close>, \<open>1\<close> and \<open>-10^16\<close>, one of each: the sum of price times quantity
  is \<open>1\<close>, the \<^verbatim>\<open>float64\<close> total is \<open>0\<close>, and the order is refused.\<close>

theorem NewOrder_exact_sum_positive_counterexample:
  "NewOrder ''order-2'' 3 ''customer-1''
       [NewOrderItem ''a'' ''prod-1'' ''estate'' (Finite 10000000000000000) 1,
        NewOrderItem ''b'' ''prod-2'' ''stamp'' (Finite 1) 1,
        NewOrderItem ''c'' ''prod-3'' ''rebate'' (Finite (- 10000000000000000)) 1]
     = Inl ErrInvalidOrderAmount
   \<and> spec_total
       [NewOrderItem ''a'' ''prod-1'' ''estate'' (Finite 10000000000000000) 1,
        NewOrderItem ''b'' ''prod-2'' ''stamp'' (Finite 1) 1,
        NewOrderItem ''c'' ''prod-3'' ''rebate'' (Finite (- 10000000000000000)) 1]
     = Some 1"
  by (simp add: order_eval)

text \<open>An order with a negative price and a negative quantity among its items is
  accepted (total 15); a single negative item is refused for its total.\<close>

theorem NewOrder_validates_only_the_total_witness:
  "(\<exists>ord. NewOrder ''order-2'' 3 ''customer-1''
       [NewOrderItem ''a'' ''prod-1'' ''laptop'' (Finite 10) 2,
        NewOrderItem ''b'' ''prod-2'' ''voucher'' (Finite (- 5)) 1,
        NewOrderItem ''c'' ''prod-3'' ''sample'' (Finite 0) (- 3)] = Inr ord)
   \<and> float64_sum (map Subtotal
       [NewOrderItem ''a'' ''prod-1'' ''laptop'' (Finite 10) 2,
        NewOrderItem ''b'' ''prod-2'' ''voucher'' (Finite (- 5)) 1,
        NewOrderItem ''c'' ''prod-3'' ''sample'' (Finite 0) (- 3)]) = Finite 15
   \<and> NewOrder ''order-3'' 3 ''customer-1''
       [NewOrderItem ''a'' ''prod-2'' ''voucher'' (Finite (- 5)) 1]
       = Inl ErrInvalidOrderAmount"
proof -
  let ?items = "[NewOrderItem ''a'' ''prod-1'' ''laptop'' (Finite 10) 2,
        NewOrderItem ''b'' ''prod-2'' ''voucher'' (Finite (- 5)) 1,
        NewOrderItem ''c'' ''prod-3'' ''sample'' (Finite 0) (- 3)]"
  let ?voucher = "[NewOrderItem ''a'' ''prod-2'' ''voucher'' (Finite (- 5)) 1]"
  have total: "float64_sum (map Subtotal ?items) = Finite 15"
    by (simp add: order_eval)
  have positive: "?items \<noteq> [] \<and> 0 < float64_sum (map Subtotal ?items)"
    by (simp add: order_eval)
  have negative: "?voucher \<noteq> [] \<and> float64_sum (map Subtotal ?voucher) \<le> 0"
    by (simp add: order_eval)
  note accepted =
    NewOrder_validates_only_the_total [where fresh = "''order-2''" and now = 3
      and customerID = "''customer-1''" and items = ?items]
  note refused =
    NewOrder_validates_only_the_total [where fresh = "''order-3''" and now = 3
      and customerID = "''customer-1''" and items = ?voucher]
  have a: "\<exists>ord. NewOrder ''order-2'' 3 ''customer-1'' ?items = Inr ord"
    by (rule accepted [THEN conjunct2, THEN conjunct1, THEN mp, OF positive])
  have b: "NewOrder ''order-3'' 3 ''customer-1'' ?voucher = Inl ErrInvalidOrderAmount"
    by (rule refused [THEN conjunct2, THEN conjunct2, THEN conjunct2, THEN conjunct1,
          THEN iffD2, OF negative])
  from a total b show ?thesis by simp
qed

section \<open>Cancellation\<close>

lemma UpdateStatus_Canceled:
  "UpdateStatus StatusCanceled now ord =
     (if order_status ord \<in> {StatusPending, StatusPaid, StatusShipped}
      then (ord\<lparr>order_status := StatusCanceled, order_updatedAt := now\<rparr>, None)
      else (ord, Some ErrOrderStatusTransition))"
  by (simp add: UpdateStatus_def isValidStatusTransition_def OrderStatus_defs)

text \<open>
  Claim C8.  \<open>CancelOrder\<close> is \<open>UpdateOrderStatus\<close> with the target status canceled.  For
  an order that is pending, paid or shipped the guarded update to canceled succeeds and
  sets the status to canceled, and when the repository finds the order and accepts the
  update, \<open>CancelOrder\<close> returns the canceled order.  For an order that is delivered or
  canceled the update fails with \<open>ErrOrderStatusTransition\<close>, and \<open>CancelOrder\<close> returns
  that error without calling \<open>Update\<close>.
\<close>

theorem CancelOrder_is_guarded_UpdateOrderStatus:
  "CancelOrder uc now ident w = UpdateOrderStatus uc now ident StatusCanceled w
   \<and> (order_status ord \<in> {StatusPending, StatusPaid, StatusShipped} \<longrightarrow>
        UpdateStatus StatusCanceled now ord
          = (ord\<lparr>order_status := StatusCanceled, order_updatedAt := now\<rparr>, None)
        \<and> (order_FindByID (order_repo uc) ident w = ((Some ord, None), w1)
             \<and> order_Update (order_repo uc)
                  (ord\<lparr>order_status := StatusCanceled, order_updatedAt := now\<rparr>) w1 = (None, w2)
             \<longrightarrow> CancelOrder uc now ident w
                   = (Returned (Some (ord\<lparr>order_status := StatusCanceled,
                                          order_updatedAt := now\<rparr>), None),
                      [Call_order_FindByID ident,
                       Call_order_Update (ord\<lparr>order_status := StatusCanceled,
                                              order_updatedAt := now\<rparr>)], w2)))
   \<and> (order_status ord \<in> {StatusDelivered, StatusCanceled} \<longrightarrow>
        UpdateStatus StatusCanceled now ord = (ord, Some ErrOrderStatusTransition)
        \<and> (order_FindByID (order_repo uc) ident w = ((Some ord, None), w1)
             \<longrightarrow> CancelOrder uc now ident w
                   = (Returned (None, Some ErrOrderStatusTransition),
                      [Call_order_FindByID ident], w1)))"
proof -
  have same: "CancelOrder uc now ident w = UpdateOrderStatus uc now ident StatusCanceled w"
    by (simp add: CancelOrder_def)
  have terminal: "order_status ord \<in> {StatusDelivered, StatusCanceled} \<Longrightarrow>
      order_status ord \<notin> {StatusPending, StatusPaid, StatusShipped}"
    by (auto simp: OrderStatus_defs)
  show ?thesis
    using terminal
    by (simp add: same UpdateOrderStatus_def UpdateStatus_Canceled)
qed

text \<open>Cancelling the pending scenario order, and the same order once delivered.\<close>

theorem CancelOrder_is_guarded_UpdateOrderStatus_witness:
  "CancelOrder \<lparr>order_repo = FakeOrderRepository\<rparr> 9 ''order-1'' [scenario_order]
     = (Returned (Some (scenario_order\<lparr>order_status := StatusCanceled, order_updatedAt := 9\<rparr>),
                  None),
        [Call_order_FindByID ''order-1'',
         Call_order_Update (scenario_order\<lparr>order_status := StatusCanceled,
                                           order_updatedAt := 9\<rparr>)],
        [scenario_order\<lparr>order_status := StatusCanceled, order_updatedAt := 9\<rparr>])
   \<and> CancelOrder \<lparr>order_repo = FakeOrderRepository\<rparr> 9 ''order-1''
       [scenario_order\<lparr>order_status := StatusDelivered\<rparr>]
     = (Returned (None, Some ErrOrderStatusTransition), [Call_order_FindByID ''order-1''],
        [scenario_order\<lparr>order_status := StatusDelivered\<rparr>])"
proof -
  let ?uc = "\<lparr>order_repo = FakeOrderRepository\<rparr>"
  let ?canceled = "scenario_order\<lparr>order_status := StatusCanceled, order_updatedAt := 9\<rparr>"
  let ?delivered = "scenario_order\<lparr>order_status := StatusDelivered\<rparr>"
  have pending: "order_status scenario_order \<in> {StatusPending, StatusPaid, StatusShipped}"
    by (simp add: scenario_order_def)
  have found: "order_FindByID (order_repo ?uc) ''order-1'' [scenario_order]
                 = ((Some scenario_order, None), [scenario_order])"
    by (simp add: FakeOrderRepository_def scenario_order_def)
  have updated: "order_Update (order_repo ?uc) ?canceled [scenario_order] = (None, [?canceled])"
    by (simp add: FakeOrderRepository_def scenario_order_def)
  have delivered: "order_status ?delivered \<in> {StatusDelivered, StatusCanceled}"
    by simp
  have found': "order_FindByID (order_repo ?uc) ''order-1'' [?delivered]
                 = ((Some ?delivered, None), [?delivered])"
    by (simp add: FakeOrderRepository_def scenario_order_def)
  from pending found updated delivered found'
    CancelOrder_is_guarded_UpdateOrderStatus [where uc = ?uc and now = 9
      and ident = "''order-1''" and w = "[scenario_order]" and ord = scenario_order
      and ?w1.0 = "[scenario_order]" and ?w2.0 = "[?canceled]"]
    CancelOrder_is_guarded_UpdateOrderStatus [where uc = ?uc and now = 9
      and ident = "''order-1''" and w = "[?delivered]" and ord = ?delivered
      and ?w1.0 = "[?delivered]"]
  show ?thesis by blast
qed

section \<open>Payment processing\<close>

lemma PaymentStatus_distinct:
  "PaymentStatusApproved \<noteq> PaymentStatusPending"
  "PaymentStatusRejected \<noteq> PaymentStatusPending"
  "PaymentStatusRefunded \<noteq> PaymentStatusPending"
  "PaymentStatusRejected \<noteq> PaymentStatusApproved"
  "PaymentStatusRefunded \<noteq> PaymentStatusApproved"
  "PaymentStatusPending \<noteq> PaymentStatusApproved"
  by (simp_all add: PaymentStatus_defs)

lemma ProcessPayment_not_pending:
  assumes "paymentID \<noteq> []"
    and "payment_FindByID (repo uc) paymentID w = ((Some p, None), w1)"
    and "payment_status p \<noteq> PaymentStatusPending"
  shows "ProcessPayment uc now paymentID w
           = (Returned (Some p, None), [Call_FindByID paymentID], w1)"
  using assms by (simp add: ProcessPayment_def)

lemma ProcessPayment_gateway_success:
  assumes "paymentID \<noteq> []"
    and "payment_FindByID (repo uc) paymentID w = ((Some p, None), w1)"
    and "payment_status p = PaymentStatusPending"
    and "gateway_ProcessPayment (gateway uc) p w1 = ((transactionID, None), w2)"
    and "payment_Update (repo uc) (Approve transactionID now p) w2 = (updateErr, w3)"
  shows "ProcessPayment uc now paymentID w
           = (Returned (case updateErr of
                          None \<Rightarrow> (Some (Approve transactionID now p), None)
                        | Some e \<Rightarrow> (None, Some (Errorf
                            ''failed to update payment status after approval: '' e))),
              [Call_FindByID paymentID, Call_gateway_ProcessPayment p,
               Call_Update (Approve transactionID now p)], w3)"
  using assms by (simp add: ProcessPayment_def Let_def split: option.splits)

lemma ProcessPayment_gateway_failure:
  assumes "paymentID \<noteq> []"
    and "payment_FindByID (repo uc) paymentID w = ((Some p, None), w1)"
    and "payment_status p = PaymentStatusPending"
    and "gateway_ProcessPayment (gateway uc) p w1 = ((transactionID, Some err), w2)"
    and "Reject (Error err) now p = Returned rejected"
    and "payment_Update (repo uc) rejected w2 = (updateErr, w3)"
  shows "ProcessPayment uc now paymentID w
           = (Returned (case updateErr of
                          None \<Rightarrow> (Some rejected, Some (Errorf ''payment processing failed: '' err))
                        | Some e \<Rightarrow> (None, Some (Errorf
                            ''failed to update payment status after rejection: '' e))),
              [Call_FindByID paymentID, Call_gateway_ProcessPayment p, Call_Update rejected], w3)"
  using assms by (simp add: ProcessPayment_def split: option.splits)

lemma ProcessPayment_gateway_failure_nil_map:
  assumes "paymentID \<noteq> []"
    and "payment_FindByID (repo uc) paymentID w = ((Some p, None), w1)"
    and "payment_status p = PaymentStatusPending"
    and "gateway_ProcessPayment (gateway uc) p w1 = ((transactionID, Some err), w2)"
    and "payment_paymentData p = None"
  shows "ProcessPayment uc now paymentID w
           = (Panicked, [Call_FindByID paymentID, Call_gateway_ProcessPayment p], w2)"
  using assms by (simp add: ProcessPayment_def Reject_def)

lemma ProcessPayment_pending_calls_gateway:
  assumes "paymentID \<noteq> []"
    and "payment_FindByID (repo uc) paymentID w = ((Some p, None), w1)"
    and "payment_status p = PaymentStatusPending"
  shows "filter is_gateway_call (fst (snd (ProcessPayment uc now paymentID w)))
           = [Call_gateway_ProcessPayment p]"
  using assms
  by (simp add: ProcessPayment_def Let_def split: prod.splits option.splits outcome.splits)

text \<open>
  Claim C3, as amended.  Let the identifier be non-empty and let the repository find the
  payment.  If its status is not pending, \<open>ProcessPayment\<close> returns that payment
  unchanged with no error, and its only call is the lookup: no gateway call, no
  persistence write.  If it is pending, the call makes exactly one gateway call, and:
  \<^item> when the gateway accepts, the repository accepts the update of the approved payment
    and afterwards finds that payment, the first call updates and returns the approved
    payment, and a second call returns it unchanged with no error, its only call being
    the lookup;
  \<^item> when the gateway declines a payment whose auxiliary data map is not nil, the
    repository accepts the update of the rejected payment and afterwards finds it, the
    first call updates and returns the rejected payment with the wrapped gateway error,
    and a second call returns it unchanged with no error, its only call being the
    lookup;
  \<^item> when the repository refuses the update of the approved payment, the first call
    returns the wrapped update error and no payment: nothing has settled, and a later
    call that still finds the payment pending calls the gateway again.
\<close>

theorem ProcessPayment_idempotent:
  fixes p :: Payment and m :: "string \<rightharpoonup> string"
  defines "approved \<equiv> \<lambda>transactionID now. Approve transactionID now p"
    and "rejected \<equiv> \<lambda>reason now.
           p\<lparr>payment_status := PaymentStatusRejected,
             payment_paymentData := Some (m(''reject_reason'' \<mapsto> reason)),
             payment_updatedAt := now\<rparr>"
  assumes "paymentID \<noteq> []"
    and "payment_FindByID (repo uc) paymentID w = ((Some p, None), w1)"
  shows "(payment_status p \<noteq> PaymentStatusPending \<longrightarrow>
            ProcessPayment uc now paymentID w
              = (Returned (Some p, None), [Call_FindByID paymentID], w1))
         \<and> (payment_status p = PaymentStatusPending
              \<and> gateway_ProcessPayment (gateway uc) p w1 = ((transactionID, None), w2)
              \<and> payment_Update (repo uc) (approved transactionID now) w2 = (None, w3)
              \<and> payment_FindByID (repo uc) paymentID w3
                  = ((Some (approved transactionID now), None), w4)
            \<longrightarrow> ProcessPayment uc now paymentID w
                  = (Returned (Some (approved transactionID now), None),
                     [Call_FindByID paymentID, Call_gateway_ProcessPayment p,
                      Call_Update (approved transactionID now)], w3)
                \<and> payment_status (approved transactionID now) = PaymentStatusApproved
                \<and> ProcessPayment uc now' paymentID w3
                    = (Returned (Some (approved transactionID now), None),
                       [Call_FindByID paymentID], w4))
         \<and> (payment_status p = PaymentStatusPending
              \<and> gateway_ProcessPayment (gateway uc) p w1 = ((transactionID, Some gatewayErr), w2)
              \<and> payment_paymentData p = Some m
              \<and> payment_Update (repo uc) (rejected (Error gatewayErr) now) w2 = (None, w3)
              \<and> payment_FindByID (repo uc) paymentID w3
                  = ((Some (rejected (Error gatewayErr) now), None), w4)
            \<longrightarrow> ProcessPayment uc now paymentID w
                  = (Returned (Some (rejected (Error gatewayErr) now),
                               Some (Errorf ''payment processing failed: '' gatewayErr)),
                     [Call_FindByID paymentID, Call_gateway_ProcessPayment p,
                      Call_Update (rejected (Error gatewayErr) now)], w3)
                \<and> payment_status (rejected (Error gatewayErr) now) = PaymentStatusRejected
                \<and> ProcessPayment uc now' paymentID w3
                    = (Returned (Some (rejected (Error gatewayErr) now), None),
                       [Call_FindByID paymentID], w4))
         \<and> (payment_status p = PaymentStatusPending
              \<and> gateway_ProcessPayment (gateway uc) p w1 = ((transactionID, None), w2)
              \<and> payment_Update (repo uc) (approved transactionID now) w2 = (Some updateErr, w3)
            \<longrightarrow> ProcessPayment uc now paymentID w
                  = (Returned (None, Some (Errorf
                       ''failed to update payment status after approval: '' updateErr)),
                     [Call_FindByID paymentID, Call_gateway_ProcessPayment p,
                      Call_Update (approved transactionID now)], w3))
         \<and> (payment_status p = PaymentStatusPending \<longrightarrow>
              filter is_gateway_call (fst (snd (ProcessPayment uc now paymentID w)))
                = [Call_gateway_ProcessPayment p])"
proof (intro conjI impI)
  assume "payment_status p \<noteq> PaymentStatusPending"
  with assms(3,4) show "ProcessPayment uc now paymentID w
              = (Returned (Some p, None), [Call_FindByID paymentID], w1)"
    by (rule ProcessPayment_not_pending)
next
  assume run: "payment_status p = PaymentStatusPending
      \<and> gateway_ProcessPayment (gateway uc) p w1 = ((transactionID, None), w2)
      \<and> payment_Update (repo uc) (approved transactionID now) w2 = (None, w3)
      \<and> payment_FindByID (repo uc) paymentID w3
          = ((Some (approved transactionID now), None), w4)"
  with assms(3,4) show "ProcessPayment uc now paymentID w
      = (Returned (Some (approved transactionID now), None),
         [Call_FindByID paymentID, Call_gateway_ProcessPayment p,
          Call_Update (approved transactionID now)], w3)"
    by (simp add: approved_def ProcessPayment_gateway_success [where updateErr = None])
  show settled: "payment_status (approved transactionID now) = PaymentStatusApproved"
    by (simp add: approved_def Approve_def)
  then have "payment_status (approved transactionID now) \<noteq> PaymentStatusPending"
    by (simp add: PaymentStatus_distinct)
  with assms(3) run show "ProcessPayment uc now' paymentID w3
      = (Returned (Some (approved transactionID now), None), [Call_FindByID paymentID], w4)"
    by (simp add: ProcessPayment_not_pending)
next
  assume run: "payment_status p = PaymentStatusPending
      \<and> gateway_ProcessPayment (gateway uc) p w1 = ((transactionID, Some gatewayErr), w2)
      \<and> payment_paymentData p = Some m
      \<and> payment_Update (repo uc) (rejected (Error gatewayErr) now) w2 = (None, w3)
      \<and> payment_FindByID (repo uc) paymentID w3
          = ((Some (rejected (Error gatewayErr) now), None), w4)"
  then have reject: "Reject (Error gatewayErr) now p = Returned (rejected (Error gatewayErr) now)"
    by (simp add: Reject_def rejected_def)
  from assms(3,4) run reject show "ProcessPayment uc now paymentID w
      = (Returned (Some (rejected (Error gatewayErr) now),
                   Some (Errorf ''payment processing failed: '' gatewayErr)),
         [Call_FindByID paymentID, Call_gateway_ProcessPayment p,
          Call_Update (rejected (Error gatewayErr) now)], w3)"
    by (simp add: ProcessPayment_gateway_failure [where updateErr = None])
  show settled: "payment_status (rejected (Error gatewayErr) now) = PaymentStatusRejected"
    by (simp add: rejected_def)
  then have "payment_status (rejected (Error gatewayErr) now) \<noteq> PaymentStatusPending"
    by (simp add: PaymentStatus_distinct)
  with assms(3) run show "ProcessPayment uc now' paymentID w3
      = (Returned (Some (rejected (Error gatewayErr) now), None), [Call_FindByID paymentID], w4)"
    by (simp add: ProcessPayment_not_pending)
next
  assume "payment_status p = PaymentStatusPending
      \<and> gateway_ProcessPayment (gateway uc) p w1 = ((transactionID, None), w2)
      \<and> payment_Update (repo uc) (approved transactionID now) w2 = (Some updateErr, w3)"
  with assms(3,4) show "ProcessPayment uc now paymentID w
      = (Returned (None, Some (Errorf
           ''failed to update payment status after approval: '' updateErr)),
         [Call_FindByID paymentID, Call_gateway_ProcessPayment p,
          Call_Update (approved transactionID now)], w3)"
    by (simp add: approved_def ProcessPayment_gateway_success [where updateErr = "Some updateErr"])
next
  assume "payment_status p = PaymentStatusPending"
  with assms(3,4) show "filter is_gateway_call (fst (snd (ProcessPayment uc now paymentID w)))
                = [Call_gateway_ProcessPayment p]"
    by (rule ProcessPayment_pending_calls_gateway)
qed

text \<open>With a store that refuses the update, both of two calls in a row reach the
  gateway.\<close>

theorem ProcessPayment_update_refused_counterexample:
  "ProcessPayment \<lparr>repo = RefusingUpdateRepository, gateway = DummyPaymentGateway\<rparr> 5 ''pay-1''
       [scenario_payment]
     = (Returned (None, Some (Errorf ''failed to update payment status after approval: ''
                                (Foreign ''connection lost''))),
        [Call_FindByID ''pay-1'', Call_gateway_ProcessPayment scenario_payment,
         Call_Update (Approve ''txn_pay-1'' 5 scenario_payment)],
        [scenario_payment])
   \<and> ProcessPayment \<lparr>repo = RefusingUpdateRepository, gateway = DummyPaymentGateway\<rparr> 6 ''pay-1''
       [scenario_payment]
     = (Returned (None, Some (Errorf ''failed to update payment status after approval: ''
                                (Foreign ''connection lost''))),
        [Call_FindByID ''pay-1'', Call_gateway_ProcessPayment scenario_payment,
         Call_Update (Approve ''txn_pay-1'' 6 scenario_payment)],
        [scenario_payment])"
  by (simp add: ProcessPayment_def RefusingUpdateRepository_def FakePaymentRepository_def
      DummyPaymentGateway_def scenario_payment_def PaymentStatus_defs Let_def)

text \<open>The scenario payment processed twice, through the dummy gateway and through the
  declining one.\<close>

theorem ProcessPayment_idempotent_witness:
  "ProcessPayment \<lparr>repo = FakePaymentRepository, gateway = DummyPaymentGateway\<rparr> 5 ''pay-1''
       [scenario_payment]
     = (Returned (Some (Approve ''txn_pay-1'' 5 scenario_payment), None),
        [Call_FindByID ''pay-1'', Call_gateway_ProcessPayment scenario_payment,
         Call_Update (Approve ''txn_pay-1'' 5 scenario_payment)],
        [Approve ''txn_pay-1'' 5 scenario_payment])
   \<and> ProcessPayment \<lparr>repo = FakePaymentRepository, gateway = DummyPaymentGateway\<rparr> 6 ''pay-1''
       [Approve ''txn_pay-1'' 5 scenario_payment]
     = (Returned (Some (Approve ''txn_pay-1'' 5 scenario_payment), None),
        [Call_FindByID ''pay-1''], [Approve ''txn_pay-1'' 5 scenario_payment])
   \<and> ProcessPayment \<lparr>repo = FakePaymentRepository, gateway = DecliningGateway\<rparr> 5 ''pay-1''
       [scenario_payment]
     = (Returned (Some (scenario_payment
                    \<lparr>payment_status := PaymentStatusRejected,
                     payment_paymentData := Some [''reject_reason'' \<mapsto> ''card declined''],
                     payment_updatedAt := 5\<rparr>),
                  Some (Errorf ''payment processing failed: '' (Foreign ''card declined''))),
        [Call_FindByID ''pay-1'', Call_gateway_ProcessPayment scenario_payment,
         Call_Update (scenario_payment
                    \<lparr>payment_status := PaymentStatusRejected,
                     payment_paymentData := Some [''reject_reason'' \<mapsto> ''card declined''],
                     payment_updatedAt := 5\<rparr>)],
        [scenario_payment
                    \<lparr>payment_status := PaymentStatusRejected,
                     payment_paymentData := Some [''reject_reason'' \<mapsto> ''card declined''],
                     payment_updatedAt := 5\<rparr>])
   \<and> ProcessPayment \<lparr>repo = FakePaymentRepository, gateway = DecliningGateway\<rparr> 6 ''pay-1''
       [scenario_payment
                    \<lparr>payment_status := PaymentStatusRejected,
                     payment_paymentData := Some [''reject_reason'' \<mapsto> ''card declined''],
                     payment_updatedAt := 5\<rparr>]
     = (Returned (Some (scenario_payment
                    \<lparr>payment_status := PaymentStatusRejected,
                     payment_paymentData := Some [''reject_reason'' \<mapsto> ''card declined''],
                     payment_updatedAt := 5\<rparr>), None),
        [Call_FindByID ''pay-1''],
        [scenario_payment
                    \<lparr>payment_status := PaymentStatusRejected,
                     payment_paymentData := Some [''reject_reason'' \<mapsto> ''card declined''],
                     payment_updatedAt := 5\<rparr>])"
proof -
  let ?dummy = "\<lparr>repo = FakePaymentRepository, gateway = DummyPaymentGateway\<rparr>"
  let ?declining = "\<lparr>repo = FakePaymentRepository, gateway = DecliningGateway\<rparr>"
  let ?approved = "Approve ''txn_pay-1'' 5 scenario_payment"
  let ?rejected = "scenario_payment
                    \<lparr>payment_status := PaymentStatusRejected,
                     payment_paymentData := Some [''reject_reason'' \<mapsto> Error (Foreign ''card declined'')],
                     payment_updatedAt := 5\<rparr>"
  have ident: "''pay-1'' \<noteq> []" by simp
  have found: "payment_FindByID (repo ?dummy) ''pay-1'' [scenario_payment]
                 = ((Some scenario_payment, None), [scenario_payment])"
    and found': "payment_FindByID (repo ?declining) ''pay-1'' [scenario_payment]
                 = ((Some scenario_payment, None), [scenario_payment])"
    by (simp_all add: FakePaymentRepository_def scenario_payment_def)
  have accepted: "payment_status scenario_payment = PaymentStatusPending
      \<and> gateway_ProcessPayment (gateway ?dummy) scenario_payment [scenario_payment]
          = ((''txn_pay-1'', None), [scenario_payment])
      \<and> payment_Update (repo ?dummy) ?approved [scenario_payment] = (None, [?approved])
      \<and> payment_FindByID (repo ?dummy) ''pay-1'' [?approved]
          = ((Some ?approved, None), [?approved])"
    by (simp add: FakePaymentRepository_def DummyPaymentGateway_def scenario_payment_def
        Approve_def)
  have declined: "payment_status scenario_payment = PaymentStatusPending
      \<and> gateway_ProcessPayment (gateway ?declining) scenario_payment [scenario_payment]
          = (([], Some (Foreign ''card declined'')), [scenario_payment])
      \<and> payment_paymentData scenario_payment = Some Map.empty
      \<and> payment_Update (repo ?declining) ?rejected [scenario_payment] = (None, [?rejected])
      \<and> payment_FindByID (repo ?declining) ''pay-1'' [?rejected]
          = ((Some ?rejected, None), [?rejected])"
    by (simp add: FakePaymentRepository_def DecliningGateway_def scenario_payment_def)
  note twice =
    ProcessPayment_idempotent [OF ident found, where now = 5 and now' = 6
      and transactionID = "''txn_pay-1''" and ?w2.0 = "[scenario_payment]"
      and ?w3.0 = "[?approved]" and ?w4.0 = "[?approved]"]
  note twice' =
    ProcessPayment_idempotent [OF ident found', where now = 5 and now' = 6
      and transactionID = "[]" and gatewayErr = "Foreign ''card declined''"
      and m = Map.empty and ?w2.0 = "[scenario_payment]"
      and ?w3.0 = "[?rejected]" and ?w4.0 = "[?rejected]"]
  have a: "ProcessPayment ?dummy 5 ''pay-1'' [scenario_payment]
     = (Returned (Some ?approved, None),
        [Call_FindByID ''pay-1'', Call_gateway_ProcessPayment scenario_payment,
         Call_Update ?approved], [?approved])"
    and b: "ProcessPayment ?dummy 6 ''pay-1'' [?approved]
     = (Returned (Some ?approved, None), [Call_FindByID ''pay-1''], [?approved])"
    using twice [THEN conjunct2, THEN conjunct1, THEN mp, OF accepted] by simp_all
  have c: "ProcessPayment ?declining 5 ''pay-1'' [scenario_payment]
     = (Returned (Some ?rejected,
                  Some (Errorf ''payment processing failed: '' (Foreign ''card declined''))),
        [Call_FindByID ''pay-1'', Call_gateway_ProcessPayment scenario_payment,
         Call_Update ?rejected], [?rejected])"
    and d: "ProcessPayment ?declining 6 ''pay-1'' [?rejected]
     = (Returned (Some ?rejected, None), [Call_FindByID ''pay-1''], [?rejected])"
    using twice' [THEN conjunct2, THEN conjunct2, THEN conjunct1, THEN mp, OF declined]
    by simp_all
  from a b c d show ?thesis by simp
qed

text \<open>
  Claim C4.  For a pending payment, a gateway success leads to the approved payment
  being updated and returned, and a gateway failure to the rejected payment (reason
  stored under \<^verbatim>\<open>reject_reason\<close>) being updated and returned with the wrapped gateway
  error, or to the wrapped update error when that update fails: the lemmas
  \<open>ProcessPayment_gateway_success\<close> and \<open>ProcessPayment_gateway_failure\<close> above state
  this for a payment whose auxiliary data map is not nil.  The claim is about every
  pending payment, and it fails for a pending payment whose auxiliary data map is nil,
  which is what \<open>NewPayment\<close> builds when the caller passes no auxiliary data: when the
  gateway declines such a payment, \<open>Reject\<close> writes to the nil map and \<open>ProcessPayment\<close>
  panics after the gateway call, with no update and nothing returned.
\<close>

theorem ProcessPayment_declined_without_data:
  "ProcessPayment \<lparr>repo = FakePaymentRepository, gateway = DecliningGateway\<rparr> 5 ''pay-1''
       [payment_without_data]
     = (Panicked,
        [Call_FindByID ''pay-1'', Call_gateway_ProcessPayment payment_without_data],
        [payment_without_data])"
  by (simp add: ProcessPayment_def FakePaymentRepository_def DecliningGateway_def
      payment_without_data_def scenario_payment_def Reject_def)

section \<open>Refund\<close>

lemma RefundPayment_gateway_precedes_guard:
  assumes "ident \<noteq> []"
    and "payment_FindByID (repo uc) ident w = ((Some p, None), w1)"
    and "gateway_RefundPayment (gateway uc) (Some p) reason w1 = (None, w2)"
    and "payment_status p \<noteq> PaymentStatusApproved"
  shows "RefundPayment uc now ident reason w
           = (Returned (None, Some (ErrorsNew ''only approved payments can be refunded'')),
              [Call_FindByID ident, Call_gateway_RefundPayment (Some p) reason], w2)"
  using assms by (simp add: RefundPayment_def Refund_def)

lemma RefundPayment_approved:
  assumes "ident \<noteq> []"
    and "payment_FindByID (repo uc) ident w = ((Some p, None), w1)"
    and "payment_status p = PaymentStatusApproved"
    and "payment_paymentData p = Some m"
    and "gateway_RefundPayment (gateway uc) (Some p) reason w1 = (gatewayErr, w2)"
    and "payment_Update (repo uc)
           (p\<lparr>payment_status := PaymentStatusRefunded,
              payment_paymentData := Some (m(''refund_reason'' \<mapsto> reason)),
              payment_updatedAt := now\<rparr>) w2 = (updateErr, w3)"
  shows "RefundPayment uc now ident reason w
           = (case gatewayErr of
                Some e \<Rightarrow>
                  (Returned (None, Some (Errorf ''refund processing failed: '' e)),
                   [Call_FindByID ident, Call_gateway_RefundPayment (Some p) reason], w2)
              | None \<Rightarrow>
                  (Returned (case updateErr of
                      None \<Rightarrow>
                        (Some (p\<lparr>payment_status := PaymentStatusRefunded,
                                 payment_paymentData := Some (m(''refund_reason'' \<mapsto> reason)),
                                 payment_updatedAt := now\<rparr>), None)
                    | Some e \<Rightarrow>
                        (None, Some (Errorf
                           ''failed to update payment status after refund: '' e))),
                   [Call_FindByID ident, Call_gateway_RefundPayment (Some p) reason,
                    Call_Update (p\<lparr>payment_status := PaymentStatusRefunded,
                                   payment_paymentData := Some (m(''refund_reason'' \<mapsto> reason)),
                                   payment_updatedAt := now\<rparr>)], w3))"
  using assms by (simp add: RefundPayment_def Refund_def split: option.splits)

text \<open>
  Claim C2.  The claim says that refunding a payment that is not approved fails without
  any gateway call.  \<open>RefundPayment\<close> calls the gateway before \<open>Refund\<close> checks the status
  (\<open>RefundPayment_gateway_precedes_guard\<close>): on the pending scenario payment the dummy
  gateway is asked for, and grants, the refund, and only then the call returns the error
  \<^verbatim>\<open>only approved payments can be refunded\<close>; with a gateway that declines, the error
  returned for the pending payment is the wrapped gateway error instead.  No
  persistence write is made in either case.
\<close>

theorem RefundPayment_pending_reaches_gateway:
  "RefundPayment \<lparr>repo = FakePaymentRepository, gateway = DummyPaymentGateway\<rparr> 8 ''pay-1''
       ''customer request'' [scenario_payment]
     = (Returned (None, Some (ErrorsNew ''only approved payments can be refunded'')),
        [Call_FindByID ''pay-1'',
         Call_gateway_RefundPayment (Some scenario_payment) ''customer request''],
        [scenario_payment])
   \<and> payment_status scenario_payment = PaymentStatusPending
   \<and> RefundPayment \<lparr>repo = FakePaymentRepository, gateway = DecliningGateway\<rparr> 8 ''pay-1''
       ''customer request'' [scenario_payment]
     = (Returned (None, Some (Errorf ''refund processing failed: '' (Foreign ''refund declined''))),
        [Call_FindByID ''pay-1'',
         Call_gateway_RefundPayment (Some scenario_payment) ''customer request''],
        [scenario_payment])"
  by (simp add: RefundPayment_def FakePaymentRepository_def DummyPaymentGateway_def
      DecliningGateway_def scenario_payment_def Refund_def PaymentStatus_defs)

section \<open>The payment entity\<close>

text \<open>
  Claim C7, as amended.  Of the entity's operations only \<open>Refund\<close> carries a guard: from a
  status other than approved it returns an error and the payment as it was, and when it
  returns without error the payment was approved and is now refunded.  \<open>Approve\<close> and
  \<open>Reject\<close> return no error and carry no guard: \<open>Approve\<close> sets the status approved from
  any status, and \<open>Reject\<close> sets it rejected from any status (for a payment whose
  auxiliary data map is not nil).  That they act on pending payments only is enforced
  one level up, by \<open>ProcessPayment\<close>, which returns a payment that is not pending as it
  is.
\<close>

theorem Payment_entity_guards:
  "payment_status (Approve transactionID now p) = PaymentStatusApproved
   \<and> (payment_paymentData p = Some m \<longrightarrow>
        Reject reason now p
          = Returned (p\<lparr>payment_status := PaymentStatusRejected,
                        payment_paymentData := Some (m(''reject_reason'' \<mapsto> reason)),
                        payment_updatedAt := now\<rparr>))
   \<and> (payment_status p \<noteq> PaymentStatusApproved \<longrightarrow>
        Refund reason now p
          = Returned (p, Some (ErrorsNew ''only approved payments can be refunded'')))
   \<and> (Refund reason now p = Returned (p', None) \<longrightarrow>
        payment_status p = PaymentStatusApproved \<and> payment_status p' = PaymentStatusRefunded)
   \<and> (paymentID \<noteq> [] \<and> payment_FindByID (repo uc) paymentID w = ((Some p, None), w1)
        \<and> payment_status p \<noteq> PaymentStatusPending \<longrightarrow>
        ProcessPayment uc now paymentID w
          = (Returned (Some p, None), [Call_FindByID paymentID], w1))"
proof (intro conjI impI)
  show "payment_status (Approve transactionID now p) = PaymentStatusApproved"
    by (simp add: Approve_def)
next
  assume "payment_paymentData p = Some m"
  then show "Reject reason now p
          = Returned (p\<lparr>payment_status := PaymentStatusRejected,
                        payment_paymentData := Some (m(''reject_reason'' \<mapsto> reason)),
                        payment_updatedAt := now\<rparr>)"
    by (simp add: Reject_def)
next
  assume "payment_status p \<noteq> PaymentStatusApproved"
  then show "Refund reason now p
          = Returned (p, Some (ErrorsNew ''only approved payments can be refunded''))"
    by (simp add: Refund_def)
next
  assume refunded: "Refund reason now p = Returned (p', None)"
  then show "payment_status p = PaymentStatusApproved"
    by (auto simp: Refund_def split: if_splits)
  from refunded show "payment_status p' = PaymentStatusRefunded"
    by (auto simp: Refund_def split: if_splits option.splits)
next
  assume "paymentID \<noteq> [] \<and> payment_FindByID (repo uc) paymentID w = ((Some p, None), w1)
        \<and> payment_status p \<noteq> PaymentStatusPending"
  then show "ProcessPayment uc now paymentID w
          = (Returned (Some p, None), [Call_FindByID paymentID], w1)"
    by (simp add: ProcessPayment_not_pending)
qed

text \<open>\<open>Approve\<close> takes effect on a refunded payment, and \<open>Reject\<close> on an approved one.\<close>

theorem Approve_Reject_unguarded_counterexample:
  "payment_status (scenario_payment\<lparr>payment_status := PaymentStatusRefunded\<rparr>)
     = PaymentStatusRefunded
   \<and> payment_status (Approve ''txn_2'' 9 (scenario_payment\<lparr>payment_status := PaymentStatusRefunded\<rparr>))
     = PaymentStatusApproved
   \<and> Reject ''late'' 9 (scenario_payment\<lparr>payment_status := PaymentStatusApproved\<rparr>)
     = Returned (scenario_payment\<lparr>payment_status := PaymentStatusRejected,
                   payment_paymentData := Some [''reject_reason'' \<mapsto> ''late''],
                   payment_updatedAt := 9\<rparr>)
   \<and> PaymentStatusRefunded \<noteq> PaymentStatusPending
   \<and> PaymentStatusApproved \<noteq> PaymentStatusPending"
  by (simp add: Approve_def Reject_def scenario_payment_def PaymentStatus_defs)

theorem Payment_entity_guards_witness:
  "Reject ''late'' 9 (scenario_payment\<lparr>payment_status := PaymentStatusRefunded\<rparr>)
     = Returned (scenario_payment\<lparr>payment_status := PaymentStatusRejected,
                   payment_paymentData := Some [''reject_reason'' \<mapsto> ''late''],
                   payment_updatedAt := 9\<rparr>)
   \<and> Refund ''customer request'' 9 scenario_payment
     = Returned (scenario_payment, Some (ErrorsNew ''only approved payments can be refunded''))
   \<and> payment_status (Approve ''txn_pay-1'' 5 scenario_payment) = PaymentStatusApproved
   \<and> ProcessPayment \<lparr>repo = FakePaymentRepository, gateway = DummyPaymentGateway\<rparr> 9 ''pay-1''
       [scenario_payment\<lparr>payment_status := PaymentStatusRefunded\<rparr>]
     = (Returned (Some (scenario_payment\<lparr>payment_status := PaymentStatusRefunded\<rparr>), None),
        [Call_FindByID ''pay-1''],
        [scenario_payment\<lparr>payment_status := PaymentStatusRefunded\<rparr>])"
proof -
  let ?uc = "\<lparr>repo = FakePaymentRepository, gateway = DummyPaymentGateway\<rparr>"
  let ?refunded = "scenario_payment\<lparr>payment_status := PaymentStatusRefunded\<rparr>"
  let ?approved = "Approve ''txn_pay-1'' 5 scenario_payment"
  let ?result = "scenario_payment\<lparr>payment_status := PaymentStatusRefunded,
                   payment_transactionID := ''txn_pay-1'',
                   payment_paymentData := Some [''refund_reason'' \<mapsto> ''customer request''],
                   payment_updatedAt := 9\<rparr>"
  have data: "payment_paymentData ?refunded = Some Map.empty"
    by (simp add: scenario_payment_def)
  have pending: "payment_status scenario_payment \<noteq> PaymentStatusApproved"
    by (simp add: scenario_payment_def PaymentStatus_defs)
  have refund: "Refund ''customer request'' 9 ?approved = Returned (?result, None)"
    by (simp add: Refund_def Approve_def scenario_payment_def)
  have lookup: "''pay-1'' \<noteq> []
      \<and> payment_FindByID (repo ?uc) ''pay-1'' [?refunded] = ((Some ?refunded, None), [?refunded])
      \<and> payment_status ?refunded \<noteq> PaymentStatusPending"
    by (simp add: FakePaymentRepository_def scenario_payment_def PaymentStatus_defs)
  note at_refunded =
    Payment_entity_guards [where p = ?refunded and m = Map.empty and reason = "''late''"
      and now = 9 and paymentID = "''pay-1''" and uc = ?uc and w = "[?refunded]"
      and ?w1.0 = "[?refunded]"]
  note at_pending =
    Payment_entity_guards [where p = scenario_payment and reason = "''customer request''"
      and now = 9]
  note at_approved =
    Payment_entity_guards [where p = ?approved and reason = "''customer request''"
      and now = 9 and p' = ?result]
  have a: "Reject ''late'' 9 ?refunded
      = Returned (?refunded\<lparr>payment_status := PaymentStatusRejected,
                   payment_paymentData := Some [''reject_reason'' \<mapsto> ''late''],
                   payment_updatedAt := 9\<rparr>)"
    by (rule at_refunded [THEN conjunct2, THEN conjunct1, THEN mp, OF data])
  have b: "Refund ''customer request'' 9 scenario_payment
     = Returned (scenario_payment, Some (ErrorsNew ''only approved payments can be refunded''))"
    by (rule at_pending [THEN conjunct2, THEN conjunct2, THEN conjunct1, THEN mp, OF pending])
  have c: "payment_status ?approved = PaymentStatusApproved"
    by (rule at_approved [THEN conjunct2, THEN conjunct2, THEN conjunct2, THEN conjunct1,
          THEN mp, OF refund, THEN conjunct1])
  have d: "ProcessPayment ?uc 9 ''pay-1'' [?refunded]
      = (Returned (Some ?refunded, None), [Call_FindByID ''pay-1''], [?refunded])"
    by (rule at_refunded [THEN conjunct2, THEN conjunct2, THEN conjunct2, THEN conjunct2,
          THEN mp, OF lookup])
  from a b c d show ?thesis by simp
qed

text \<open>
  Claim C9.  The claim says that no operation of the core can panic, a payment created
  without auxiliary data included.  \<open>NewPayment\<close> keeps the nil map it is given, and
  \<open>CreatePayment\<close> saves and returns that payment; \<open>Reject\<close> on it panics, and so do
  \<open>Refund\<close> and \<open>RefundPayment\<close> once it is approved (after the gateway has granted the
  refund).
\<close>

theorem nil_paymentData_panics:
  "NewPayment ''pay-1'' 2 ''order-1'' (Finite 1100000) PaymentMethodCreditCard None
     = Inr payment_without_data
   \<and> CreatePayment \<lparr>repo = FakePaymentRepository, gateway = DummyPaymentGateway\<rparr>
       (\<lambda>k. ''pay-1'') 2 ''order-1'' (Finite 1100000) PaymentMethodCreditCard None []
     = ((Some payment_without_data, None),
        [Call_FindByOrderID ''order-1'', Call_Save payment_without_data],
        [payment_without_data])
   \<and> Reject ''card declined'' 5 payment_without_data = Panicked
   \<and> Refund ''customer request'' 6 (Approve ''txn_pay-1'' 5 payment_without_data) = Panicked
   \<and> RefundPayment \<lparr>repo = FakePaymentRepository, gateway = DummyPaymentGateway\<rparr> 6 ''pay-1''
       ''customer request'' [Approve ''txn_pay-1'' 5 payment_without_data]
     = (Panicked,
        [Call_FindByID ''pay-1'',
         Call_gateway_RefundPayment (Some (Approve ''txn_pay-1'' 5 payment_without_data))
           ''customer request''],
        [Approve ''txn_pay-1'' 5 payment_without_data])"
  by (simp add: NewPayment_def CreatePayment_def payment_without_data_def scenario_payment_def
      Reject_def Refund_def Approve_def RefundPayment_def FakePaymentRepository_def
      DummyPaymentGateway_def PaymentMethodCreditCard_def float64_ops)

section \<open>Payment creation\<close>

lemma CreatePayment_invalid_input:
  assumes "orderID = [] \<or> amount \<le> 0 \<or> meth = []"
  shows "\<exists>e w1. CreatePayment uc uuid now orderID amount meth paymentData w
                  = ((None, Some e), [Call_FindByOrderID orderID], w1)"
  using assms
  by (auto simp: CreatePayment_def NewPayment_def split: prod.splits option.splits)

text \<open>
  Claim C5, as amended.  \<open>CreatePayment\<close> first looks the order reference up in the
  repository, and validates afterwards, inside \<open>NewPayment\<close>.  If the lookup finds a
  payment, the call fails with \<open>ErrPaymentAlreadyExists\<close> and its only call is the
  lookup.  If the order reference is empty, the amount is at most zero or the method is
  empty, the call fails, returns no payment, and its only call is the lookup: no
  persistence write is made.  When the lookup reports that there is no payment, the
  error tells the first check that failed: \<open>ErrInvalidOrderID\<close>, then
  \<open>ErrInvalidPaymentAmount\<close>, then \<open>ErrInvalidPaymentMethod\<close>.
\<close>

theorem CreatePayment_failures_write_nothing:
  "(payment_FindByOrderID (repo uc) orderID w = ((Some existing, None), w1) \<longrightarrow>
      CreatePayment uc uuid now orderID amount meth paymentData w
        = ((None, Some ErrPaymentAlreadyExists), [Call_FindByOrderID orderID], w1))
   \<and> (orderID = [] \<or> amount \<le> 0 \<or> meth = [] \<longrightarrow>
        (\<exists>e w1. CreatePayment uc uuid now orderID amount meth paymentData w
                  = ((None, Some e), [Call_FindByOrderID orderID], w1)))
   \<and> (payment_FindByOrderID (repo uc) orderID w = ((None, Some ErrPaymentNotFound), w1)
        \<and> (orderID = [] \<or> amount \<le> 0 \<or> meth = []) \<longrightarrow>
        CreatePayment uc uuid now orderID amount meth paymentData w
          = ((None, Some (if orderID = [] then ErrInvalidOrderID
                          else if amount \<le> 0 then ErrInvalidPaymentAmount
                          else ErrInvalidPaymentMethod)),
             [Call_FindByOrderID orderID], w1))"
proof (intro conjI impI)
  assume "payment_FindByOrderID (repo uc) orderID w = ((Some existing, None), w1)"
  then show "CreatePayment uc uuid now orderID amount meth paymentData w
        = ((None, Some ErrPaymentAlreadyExists), [Call_FindByOrderID orderID], w1)"
    by (simp add: CreatePayment_def)
next
  assume "orderID = [] \<or> amount \<le> 0 \<or> meth = []"
  then show "\<exists>e w1. CreatePayment uc uuid now orderID amount meth paymentData w
                  = ((None, Some e), [Call_FindByOrderID orderID], w1)"
    by (rule CreatePayment_invalid_input)
next
  assume "payment_FindByOrderID (repo uc) orderID w = ((None, Some ErrPaymentNotFound), w1)
        \<and> (orderID = [] \<or> amount \<le> 0 \<or> meth = [])"
  then show "CreatePayment uc uuid now orderID amount meth paymentData w
          = ((None, Some (if orderID = [] then ErrInvalidOrderID
                          else if amount \<le> 0 then ErrInvalidPaymentAmount
                          else ErrInvalidPaymentMethod)),
             [Call_FindByOrderID orderID], w1)"
    by (auto simp: CreatePayment_def NewPayment_def)
qed

text \<open>With amount zero the repository is consulted before the amount is refused, and
  when the order already has a payment the error is not the amount error.\<close>

theorem CreatePayment_lookup_precedes_validation_counterexample:
  "CreatePayment \<lparr>repo = FakePaymentRepository, gateway = DummyPaymentGateway\<rparr>
       scenario_uuid 3 ''order-1'' 0 PaymentMethodCreditCard None []
     = ((None, Some ErrInvalidPaymentAmount), [Call_FindByOrderID ''order-1''], [])
   \<and> CreatePayment \<lparr>repo = FakePaymentRepository, gateway = DummyPaymentGateway\<rparr>
       scenario_uuid 3 ''order-1'' 0 PaymentMethodCreditCard None [scenario_payment]
     = ((None, Some ErrPaymentAlreadyExists), [Call_FindByOrderID ''order-1''],
        [scenario_payment])"
  by (simp add: CreatePayment_def FakePaymentRepository_def NewPayment_def
      scenario_payment_def float64_ops)

theorem CreatePayment_failures_write_nothing_witness:
  "CreatePayment \<lparr>repo = FakePaymentRepository, gateway = DummyPaymentGateway\<rparr>
       scenario_uuid 3 ''order-1'' (Finite 1100000) PaymentMethodCreditCard None [scenario_payment]
     = ((None, Some ErrPaymentAlreadyExists), [Call_FindByOrderID ''order-1''],
        [scenario_payment])
   \<and> CreatePayment \<lparr>repo = FakePaymentRepository, gateway = DummyPaymentGateway\<rparr>
       scenario_uuid 3 ''order-2'' (Finite (- 1)) PaymentMethodCreditCard None [scenario_payment]
     = ((None, Some ErrInvalidPaymentAmount), [Call_FindByOrderID ''order-2''],
        [scenario_payment])"
proof -
  let ?uc = "\<lparr>repo = FakePaymentRepository, gateway = DummyPaymentGateway\<rparr>"
  have found: "payment_FindByOrderID (repo ?uc) ''order-1'' [scenario_payment]
                 = ((Some scenario_payment, None), [scenario_payment])"
    by (simp add: FakePaymentRepository_def scenario_payment_def)
  have missing: "payment_FindByOrderID (repo ?uc) ''order-2'' [scenario_payment]
                   = ((None, Some ErrPaymentNotFound), [scenario_payment])
                 \<and> (''order-2'' = [] \<or> Finite (- 1) \<le> 0 \<or> PaymentMethodCreditCard = [])"
    by (simp add: FakePaymentRepository_def scenario_payment_def float64_ops)
  note duplicate =
    CreatePayment_failures_write_nothing [where uc = ?uc and orderID = "''order-1''"
      and w = "[scenario_payment]" and existing = scenario_payment
      and ?w1.0 = "[scenario_payment]" and uuid = scenario_uuid and now = 3
      and amount = "Finite 1100000" and meth = PaymentMethodCreditCard and paymentData = None]
  note invalid =
    CreatePayment_failures_write_nothing [where uc = ?uc and orderID = "''order-2''"
      and w = "[scenario_payment]" and ?w1.0 = "[scenario_payment]" and uuid = scenario_uuid
      and now = 3 and amount = "Finite (- 1)" and meth = PaymentMethodCreditCard and paymentData = None]
  have a: "CreatePayment ?uc scenario_uuid 3 ''order-1'' (Finite 1100000) PaymentMethodCreditCard None
             [scenario_payment]
     = ((None, Some ErrPaymentAlreadyExists), [Call_FindByOrderID ''order-1''],
        [scenario_payment])"
    by (rule duplicate [THEN conjunct1, THEN mp, OF found])
  have b: "CreatePayment ?uc scenario_uuid 3 ''order-2'' (Finite (- 1)) PaymentMethodCreditCard None
             [scenario_payment]
     = ((None, Some (if ''order-2'' = [] then ErrInvalidOrderID
                          else if Finite (- 1) \<le> 0 then ErrInvalidPaymentAmount
                          else ErrInvalidPaymentMethod)),
             [Call_FindByOrderID ''order-2''], [scenario_payment])"
    by (rule invalid [THEN conjunct2, THEN conjunct2, THEN mp, OF missing])
  from a b show ?thesis by (simp add: float64_ops)
qed

end
